theory Spec2Isabelle
  imports Complex_Main
begin

section \<open>Numbers and errors\<close>

text \<open>
  The Python sources compute with IEEE doubles. The embedding idealises a finite double
  as a \<^typ>\<open>real\<close>: rounding, overflow and infinities are not modelled. Python
  integers are \<^typ>\<open>int\<close>. The exceptions the modelled code can raise are values of
  \<open>error\<close>, and a fallible function returns \<open>error + 'a\<close> with \<open>Inl\<close> for the raise.
\<close>

datatype error = AssertionError | AttributeError | IndexError | ValueError | LinAlgError

section \<open>simulation/utils.py: transforms\<close>

text \<open>
  \<open>Location\<close> and \<open>Rotation\<close> (simulation/messages.py) and the namedtuples \<open>Extent\<close> and
  \<open>Scale\<close> are plain value triples; the field names carry a prefix because \<open>x\<close>, \<open>y\<close>, \<open>z\<close>
  would otherwise become global constants. Angles are degrees.
\<close>

record Location =
  loc_x :: real
  loc_y :: real
  loc_z :: real

record Rotation =
  rot_pitch :: real
  rot_yaw :: real
  rot_roll :: real

record Extent =
  ext_x :: real
  ext_y :: real
  ext_z :: real

record Scale =
  scale_x :: real
  scale_y :: real
  scale_z :: real

text \<open>
  Every matrix of the module has a statically known shape: \<open>Transform.matrix\<close> is 4 by 4
  (\<open>np.identity(4)\<close> or a product of two such), the camera intrinsic is 3 by 3. They are
  tuples of rows, so a shape mismatch cannot occur.
\<close>

type_synonym vec3 = "real \<times> real \<times> real"
type_synonym vec4 = "real \<times> real \<times> real \<times> real"
type_synonym mat3 = "vec3 \<times> vec3 \<times> vec3"
type_synonym mat4 = "vec4 \<times> vec4 \<times> vec4 \<times> vec4"

fun dot3 :: "vec3 \<Rightarrow> vec3 \<Rightarrow> real" where
  "dot3 (a0, a1, a2) (b0, b1, b2) = a0 * b0 + a1 * b1 + a2 * b2"

fun dot4 :: "vec4 \<Rightarrow> vec4 \<Rightarrow> real" where
  "dot4 (a0, a1, a2, a3) (b0, b1, b2, b3) = a0 * b0 + a1 * b1 + a2 * b2 + a3 * b3"

text \<open>\<open>np.dot\<close> of a matrix and a column vector.\<close>

fun mat3_vec :: "mat3 \<Rightarrow> vec3 \<Rightarrow> vec3" where
  "mat3_vec (r0, r1, r2) v = (dot3 r0 v, dot3 r1 v, dot3 r2 v)"

fun mat4_vec :: "mat4 \<Rightarrow> vec4 \<Rightarrow> vec4" where
  "mat4_vec (r0, r1, r2, r3) v = (dot4 r0 v, dot4 r1 v, dot4 r2 v, dot4 r3 v)"

fun transpose4 :: "mat4 \<Rightarrow> mat4" where
  "transpose4 ((m00, m01, m02, m03), (m10, m11, m12, m13),
               (m20, m21, m22, m23), (m30, m31, m32, m33)) =
     ((m00, m10, m20, m30), (m01, m11, m21, m31), (m02, m12, m22, m32), (m03, m13, m23, m33))"

text \<open>\<open>np.dot\<close> of two 4 by 4 matrices: entry \<open>(i, j)\<close> is row \<open>i\<close> of the first times column
  \<open>j\<close> of the second.\<close>

definition mat4_mul :: "mat4 \<Rightarrow> mat4 \<Rightarrow> mat4" where
  "mat4_mul a b =
     (case (a, transpose4 b) of
        ((r0, r1, r2, r3), (c0, c1, c2, c3)) \<Rightarrow>
          ((dot4 r0 c0, dot4 r0 c1, dot4 r0 c2, dot4 r0 c3),
           (dot4 r1 c0, dot4 r1 c1, dot4 r1 c2, dot4 r1 c3),
           (dot4 r2 c0, dot4 r2 c1, dot4 r2 c2, dot4 r2 c3),
           (dot4 r3 c0, dot4 r3 c1, dot4 r3 c2, dot4 r3 c3)))"

fun det3 :: "mat3 \<Rightarrow> real" where
  "det3 ((a, b, c), (d, e, f), (g, h, i)) =
     a * (e * i - f * h) - b * (d * i - f * g) + c * (d * h - e * g)"

text \<open>
  \<open>numpy.linalg.inv\<close> on a 4 by 4 matrix. numpy raises \<open>LinAlgError\<close> on a singular matrix;
  over the reals that is a zero determinant, and the inverse is the transposed cofactor
  matrix divided by the determinant (\<open>cij\<close> is the cofactor of entry \<open>(i, j)\<close>).
\<close>

fun linalg_inv :: "mat4 \<Rightarrow> error + mat4" where
  "linalg_inv ((m00, m01, m02, m03), (m10, m11, m12, m13),
               (m20, m21, m22, m23), (m30, m31, m32, m33)) =
     (let
         c00 = det3 ((m11, m12, m13), (m21, m22, m23), (m31, m32, m33));
         c01 = - det3 ((m10, m12, m13), (m20, m22, m23), (m30, m32, m33));
         c02 = det3 ((m10, m11, m13), (m20, m21, m23), (m30, m31, m33));
         c03 = - det3 ((m10, m11, m12), (m20, m21, m22), (m30, m31, m32));
         c10 = - det3 ((m01, m02, m03), (m21, m22, m23), (m31, m32, m33));
         c11 = det3 ((m00, m02, m03), (m20, m22, m23), (m30, m32, m33));
         c12 = - det3 ((m00, m01, m03), (m20, m21, m23), (m30, m31, m33));
         c13 = det3 ((m00, m01, m02), (m20, m21, m22), (m30, m31, m32));
         c20 = det3 ((m01, m02, m03), (m11, m12, m13), (m31, m32, m33));
         c21 = - det3 ((m00, m02, m03), (m10, m12, m13), (m30, m32, m33));
         c22 = det3 ((m00, m01, m03), (m10, m11, m13), (m30, m31, m33));
         c23 = - det3 ((m00, m01, m02), (m10, m11, m12), (m30, m31, m32));
         c30 = - det3 ((m01, m02, m03), (m11, m12, m13), (m21, m22, m23));
         c31 = det3 ((m00, m02, m03), (m10, m12, m13), (m20, m22, m23));
         c32 = - det3 ((m00, m01, m03), (m10, m11, m13), (m20, m21, m23));
         c33 = det3 ((m00, m01, m02), (m10, m11, m12), (m20, m21, m22));
         d = m00 * c00 + m01 * c01 + m02 * c02 + m03 * c03
      in if d = 0 then Inl LinAlgError
         else Inr ((c00 / d, c10 / d, c20 / d, c30 / d),
                   (c01 / d, c11 / d, c21 / d, c31 / d),
                   (c02 / d, c12 / d, c22 / d, c32 / d),
                   (c03 / d, c13 / d, c23 / d, c33 / d)))"

text \<open>
  Class \<open>Transform\<close>. The attribute \<open>orientation\<close> is stored and never read; it is left out.
  A transform built from a matrix (\<open>Transform(matrix=m)\<close>, as \<open>__mul__\<close> does) has
  \<open>location = None\<close> and the default rotation.
\<close>

record Transform =
  location :: "Location option"
  rotation :: Rotation
  matrix :: mat4

definition radians :: "real \<Rightarrow> real" where
  "radians deg = deg * pi / 180"

text \<open>\<open>Transform(pos, pitch, yaw, roll, scale=scale)\<close>: the branch \<open>matrix is None\<close> of
  \<open>__init__\<close>; \<open>Scale()\<close> is \<open>(1, 1, 1)\<close>.\<close>

definition Transform_init :: "Location \<Rightarrow> real \<Rightarrow> real \<Rightarrow> real \<Rightarrow> Scale \<Rightarrow> Transform" where
  "Transform_init pos pitch yaw roll scale =
     (let cy = cos (radians yaw); sy = sin (radians yaw);
          cr = cos (radians roll); sr = sin (radians roll);
          cp = cos (radians pitch); sp = sin (radians pitch)
      in \<lparr>location = Some pos,
          rotation = \<lparr>rot_pitch = pitch, rot_yaw = yaw, rot_roll = roll\<rparr>,
          matrix =
            ((scale_x scale * (cp * cy), scale_y scale * (cy * sp * sr - sy * cr),
                - scale_z scale * (cy * sp * cr + sy * sr), loc_x pos),
             (scale_x scale * (sy * cp), scale_y scale * (sy * sp * sr + cy * cr),
                scale_z scale * (cy * sr - sy * sp * cr), loc_y pos),
             (scale_x scale * sp, - scale_y scale * (cp * sr), scale_z scale * (cp * cr),
                loc_z pos),
             (0, 0, 0, 1))\<rparr>)"

text \<open>\<open>Transform(matrix=m)\<close>: the branch \<open>matrix is not None\<close> of \<open>__init__\<close>.\<close>

definition Transform_of_matrix :: "mat4 \<Rightarrow> Transform" where
  "Transform_of_matrix m =
     \<lparr>location = None, rotation = \<lparr>rot_pitch = 0, rot_yaw = 0, rot_roll = 0\<rparr>, matrix = m\<rparr>"

text \<open>\<open>Transform.__mul__\<close>.\<close>

definition Transform_mul :: "Transform \<Rightarrow> Transform \<Rightarrow> Transform" where
  "Transform_mul self other = Transform_of_matrix (mat4_mul (matrix self) (matrix other))"

text \<open>\<open>Transform.transform_points\<close>: every point gets a homogeneous 1, is multiplied by the
  matrix, and loses its last component. (The source transposes the N by 3 array, appends a
  row of ones, multiplies once and transposes back.)\<close>

definition transform_points :: "Transform \<Rightarrow> vec3 list \<Rightarrow> vec3 list" where
  "transform_points self points =
     map (\<lambda>(px, py, pz). case mat4_vec (matrix self) (px, py, pz, 1) of
                            (qx, qy, qz, qw) \<Rightarrow> (qx, qy, qz)) points"

record BoundingBox =
  transform :: Transform
  extent :: Extent

section \<open>simulation/utils.py: opposite corners of the projected box\<close>

text \<open>
  A projected corner is the tuple \<open>(loc_2d.x, loc_2d.y, loc_2d.z)\<close> appended by
  \<open>map_ground_bounding_box_to_2D\<close>: pixel column, pixel row, depth.
\<close>

type_synonym corner = "real \<times> real \<times> real"

text \<open>\<open>itertools.combinations(corners, r=2)\<close>: the pairs \<open>(corners[i], corners[j])\<close> with
  \<open>i < j\<close>, in lexicographic order of \<open>(i, j)\<close>.\<close>

fun combinations :: "'a list \<Rightarrow> ('a \<times> 'a) list" where
  "combinations [] = []"
| "combinations (a # xs) = map (Pair a) xs @ combinations xs"

text \<open>One iteration of the loop of \<open>get_bounding_box_from_corners\<close>; the loop state is
  \<open>(max_distance, opp_ends)\<close>.\<close>

fun opp_ends_step ::
  "real \<times> (corner \<times> corner) option \<Rightarrow> corner \<times> corner \<Rightarrow> real \<times> (corner \<times> corner) option"
where
  "opp_ends_step (max_distance, opp_ends) ((a0, a1, a2), (b0, b1, b2)) =
     (if \<bar>a0 - b0\<bar> \<le> 0.8 \<or> \<bar>a1 - b1\<bar> \<le> 0.8 then (max_distance, opp_ends)
      else
        let distance = (b0 - a0)\<^sup>2 + (b1 - a1)\<^sup>2 in
        if distance > max_distance then
          (distance,
           if a0 < b0 \<and> a1 < b1 then Some ((a0, a1, a2), (b0, b1, b2))
           else Some ((b0, b1, b2), (a0, a1, a2)))
        else (max_distance, opp_ends))"

definition get_bounding_box_from_corners :: "corner list \<Rightarrow> (corner \<times> corner) option" where
  "get_bounding_box_from_corners corners =
     snd (foldl opp_ends_step (0, None) (combinations corners))"

subsection \<open>The vocabulary of the specification for corner pairs\<close>

text \<open>The pair is skipped: its x-separation or its y-separation is at most 0.8 pixels.\<close>

definition axis_degenerate :: "corner \<Rightarrow> corner \<Rightarrow> bool" where
  "axis_degenerate a b = (\<bar>fst a - fst b\<bar> \<le> 0.8 \<or> \<bar>fst (snd a) - fst (snd b)\<bar> \<le> 0.8)"

text \<open>Squared distance of two corners in the image plane.\<close>

definition sq_dist_2d :: "corner \<Rightarrow> corner \<Rightarrow> real" where
  "sq_dist_2d a b = (fst b - fst a)\<^sup>2 + (fst (snd b) - fst (snd a))\<^sup>2"

text \<open>The first corner is smaller than the second in x and in y.\<close>

definition min_corner_first :: "corner \<Rightarrow> corner \<Rightarrow> bool" where
  "min_corner_first p q = (fst p < fst q \<and> fst (snd p) < fst (snd q))"

section \<open>simulation/utils.py: projection of the 3-D box and the 2-D box\<close>

text \<open>The eight vertices of the box in world coordinates (lines 302 to 318 of
  \<open>map_ground_bounding_box_to_2D\<close>).\<close>

definition bbox_vertices :: "Transform \<Rightarrow> BoundingBox \<Rightarrow> vec3 list" where
  "bbox_vertices obj_transform bounding_box =
     (let ex = ext_x (extent bounding_box);
          ey = ext_y (extent bounding_box);
          ez = ext_z (extent bounding_box);
          bbox = [(ex, ey, ez), (ex, - ey, ez), (ex, ey, - ez), (ex, - ey, - ez),
                  (- ex, ey, ez), (- ex, - ey, ez), (- ex, ey, - ez), (- ex, - ey, - ez)];
          bbox = transform_points (transform bounding_box) bbox
      in transform_points obj_transform bbox)"

text \<open>
  The point \<open>loc_2d\<close> of one vertex (lines 325 to 339); the first argument is
  \<open>inv(extrinsic_mat.matrix)\<close>. Where \<open>pos2d[2]\<close> is zero numpy divides to an infinity or a
  nan without raising, and HOL divides to 0: in both the point has depth 0 and is dropped by
  the test that follows, so the quotient is never used.
\<close>

fun project_vertex :: "mat4 \<Rightarrow> mat3 \<Rightarrow> int \<times> int \<Rightarrow> vec3 \<Rightarrow> corner" where
  "project_vertex inv_extrinsic rgb_intrinsic (image_width, image_height) (vx, vy, vz) =
     (case mat4_vec inv_extrinsic (vx, vy, vz, 1) of
        (tx, ty, tz, tw) \<Rightarrow>
          (case mat3_vec rgb_intrinsic (tx, ty, tz) of
             (pos2d_0, pos2d_1, pos2d_2) \<Rightarrow>
               (real_of_int image_width - pos2d_0 / pos2d_2,
                real_of_int image_height - pos2d_1 / pos2d_2,
                pos2d_2)))"

text \<open>The test and the \<open>append\<close> that end the loop body (lines 341 to 343).\<close>

fun add_point :: "int \<times> int \<Rightarrow> corner list \<Rightarrow> corner \<Rightarrow> corner list" where
  "add_point (image_width, image_height) coords (x, y, z) =
     (if z > 0 then
        if (x \<ge> 0 \<or> y \<ge> 0) \<and> (x < real_of_int image_width \<or> y < real_of_int image_height)
        then coords @ [(x, y, z)]
        else coords
      else coords)"

text \<open>The source inverts the extrinsic matrix in every iteration; the loop always runs
  (eight vertices), so the inverse is taken once here.\<close>

definition map_ground_bounding_box_to_2D ::
  "Transform \<Rightarrow> Transform \<Rightarrow> BoundingBox \<Rightarrow> Transform \<Rightarrow> mat3 \<Rightarrow> int \<times> int
     \<Rightarrow> error + corner list"
where
  "map_ground_bounding_box_to_2D vehicle_transform obj_transform bounding_box rgb_transform
       rgb_intrinsic rgb_img_size =
     (let extrinsic_mat = Transform_mul vehicle_transform rgb_transform;
          bbox = bbox_vertices obj_transform bounding_box
      in case linalg_inv (matrix extrinsic_mat) of
           Inl e \<Rightarrow> Inl e
         | Inr inv_extrinsic \<Rightarrow>
             Inr (foldl (add_point rgb_img_size) []
                    (map (project_vertex inv_extrinsic rgb_intrinsic rgb_img_size) bbox)))"

definition get_bounding_box_sampling_points :: "corner \<times> corner \<Rightarrow> corner \<times> corner list" where
  "get_bounding_box_sampling_points ends =
     (case ends of
        ((a0, a1, a2), (b0, b1, b2)) \<Rightarrow>
          let middle_point = ((a0 + b0) / 2, (a1 + b1) / 2, b2);
              m0 = fst middle_point; m1 = fst (snd middle_point); m2 = snd (snd middle_point);
              sampling_points =
                [middle_point,
                 (m0 + 2, m1, m2),
                 (m0 + 1, m1 + 1, m2),
                 (m0 + 1, m1 - 1, m2),
                 (m0 - 2, m1, m2),
                 (m0 - 1, m1 + 1, m2),
                 (m0 - 1, m1 - 1, m2)]
          in (middle_point, sampling_points))"

text \<open>Python's \<open>int\<close> of a float truncates towards zero.\<close>

definition py_int :: "real \<Rightarrow> int" where
  "py_int v = (if v < 0 then \<lceil>v\<rceil> else \<lfloor>v\<rfloor>)"

text \<open>Indexing a sequence of length \<open>n\<close>: an index in \<open>[-n, n)\<close> is read, a negative one
  counting from the end; anything else raises \<open>IndexError\<close>.\<close>

definition getitem :: "'a list \<Rightarrow> int \<Rightarrow> error + 'a" where
  "getitem xs i =
     (let n = int (length xs)
      in if 0 \<le> i \<and> i < n then Inr (xs ! nat i)
         else if - n \<le> i \<and> i < 0 then Inr (xs ! nat (n + i))
         else Inl IndexError)"

definition have_same_depth :: "real \<Rightarrow> real \<Rightarrow> real \<Rightarrow> real list list \<Rightarrow> real \<Rightarrow> error + bool" where
  "have_same_depth x y z depth_array threshold =
     (let xi = py_int x; yi = py_int y
      in case getitem depth_array yi of
           Inl e \<Rightarrow> Inl e
         | Inr row \<Rightarrow>
             (case getitem row xi of
                Inl e \<Rightarrow> Inl e
              | Inr d \<Rightarrow> Inr (\<bar>d * 1000 - z\<bar> < threshold)))"

definition inside_image :: "real \<Rightarrow> real \<Rightarrow> int \<Rightarrow> int \<Rightarrow> bool" where
  "inside_image x y img_width img_height =
     (x \<ge> 0 \<and> y \<ge> 0 \<and> x < real_of_int img_width \<and> y < real_of_int img_height)"

definition select_max_bbox :: "corner \<times> corner \<Rightarrow> int \<times> int \<times> int \<times> int" where
  "select_max_bbox ends =
     (case ends of
        ((e0, e1, e2), (f0, f1, f2)) \<Rightarrow>
          let xmin = py_int e0; ymin = py_int e1;
              xmax = py_int e0; ymax = py_int e1;
              corner = (py_int f0, py_int f1);
              xmin = min xmin (fst corner);
              ymin = min ymin (snd corner);
              xmax = max xmax (fst corner);
              ymax = max ymax (snd corner)
          in (xmin, xmax, ymin, ymax))"

text \<open>The size filter, written twice in the source (lines 225 to 235 and 253 to 265): the
  box of the two ends is returned when it is large enough, and nothing otherwise.\<close>

definition select_large_bbox :: "corner \<times> corner \<Rightarrow> int \<times> int \<Rightarrow> (int \<times> int \<times> int \<times> int) option" where
  "select_large_bbox ends rgb_img_size =
     (case select_max_bbox ends of
        (xmin, xmax, ymin, ymax) \<Rightarrow>
          let width = xmax - xmin;
              height = ymax - ymin
          in if real_of_int width > real_of_int (fst rgb_img_size) * 0.01
                \<and> real_of_int height > real_of_int (snd rgb_img_size) * 0.02
                \<and> real_of_int (width * height)
                    > real_of_int (fst rgb_img_size * snd rgb_img_size) * 0.0004
             then Some (xmin, xmax, ymin, ymax)
             else None)"

text \<open>The list comprehension \<open>[have_same_depth(x, y, z, depth_array, t) for (x, y, z) in ps]\<close>:
  the first read that raises ends it.\<close>

fun same_depth_list :: "real list list \<Rightarrow> real \<Rightarrow> corner list \<Rightarrow> error + bool list" where
  "same_depth_list depth_array threshold [] = Inr []"
| "same_depth_list depth_array threshold ((x, y, z) # ps) =
     (case have_same_depth x y z depth_array threshold of
        Inl e \<Rightarrow> Inl e
      | Inr b \<Rightarrow>
          (case same_depth_list depth_array threshold ps of
             Inl e \<Rightarrow> Inl e
           | Inr bs \<Rightarrow> Inr (b # bs)))"

text \<open>The condition of the first \<open>if\<close> on the middle point; \<open>and\<close> does not evaluate
  \<open>have_same_depth\<close> when \<open>inside_image\<close> is false.\<close>

definition middle_point_gate :: "real list list \<Rightarrow> int \<times> int \<Rightarrow> real \<Rightarrow> corner \<Rightarrow> error + bool" where
  "middle_point_gate depth_array rgb_img_size middle_depth_threshold middle_point =
     (case middle_point of
        (m0, m1, m2) \<Rightarrow>
          if inside_image m0 m1 (fst rgb_img_size) (snd rgb_img_size)
          then have_same_depth m0 m1 m2 depth_array middle_depth_threshold
          else Inr False)"

text \<open>The body of \<open>get_2d_bbox_from_3d_box\<close> once two ends are found (lines 215 to 265).
  A path that reaches the end of the Python function returns \<open>None\<close>.\<close>

definition bbox_from_ends ::
  "real list list \<Rightarrow> int \<times> int \<Rightarrow> real \<Rightarrow> real \<Rightarrow> corner \<times> corner
     \<Rightarrow> error + (int \<times> int \<times> int \<times> int) option"
where
  "bbox_from_ends depth_array rgb_img_size middle_depth_threshold neighbor_threshold ends =
     (case get_bounding_box_sampling_points ends of
        (middle_point, points) \<Rightarrow>
          (case middle_point_gate depth_array rgb_img_size middle_depth_threshold middle_point of
             Inl e \<Rightarrow> Inl e
           | Inr True \<Rightarrow> Inr (select_large_bbox ends rgb_img_size)
           | Inr False \<Rightarrow>
               let points_inside_image =
                     filter (\<lambda>(x, y, z). inside_image x y (fst rgb_img_size) (snd rgb_img_size))
                       points
               in case same_depth_list depth_array neighbor_threshold points_inside_image of
                    Inl e \<Rightarrow> Inl e
                  | Inr same_depth_points \<Rightarrow>
                      if length same_depth_points > 0
                         \<and> real (count_list same_depth_points True)
                             \<ge> 0.4 * real (length same_depth_points)
                      then Inr (select_large_bbox ends rgb_img_size)
                      else Inr None))"

definition get_2d_bbox_from_3d_box ::
  "real list list \<Rightarrow> Transform \<Rightarrow> Transform \<Rightarrow> BoundingBox \<Rightarrow> Transform \<Rightarrow> mat3 \<Rightarrow> int \<times> int
     \<Rightarrow> real \<Rightarrow> real \<Rightarrow> error + (int \<times> int \<times> int \<times> int) option"
where
  "get_2d_bbox_from_3d_box depth_array vehicle_transform obj_transform bounding_box
       rgb_transform rgb_intrinsic rgb_img_size middle_depth_threshold neighbor_threshold =
     (case map_ground_bounding_box_to_2D vehicle_transform obj_transform bounding_box
             rgb_transform rgb_intrinsic rgb_img_size of
        Inl e \<Rightarrow> Inl e
      | Inr corners \<Rightarrow>
          if length corners = 8 then
            (case get_bounding_box_from_corners corners of
               None \<Rightarrow> Inr None
             | Some ends \<Rightarrow>
                 bbox_from_ends depth_array rgb_img_size middle_depth_threshold
                   neighbor_threshold ends)
          else Inr None)"

subsection \<open>The vocabulary of the specification for the visibility of a corner\<close>

text \<open>The test as claim C1 words it: positive depth, and x in \<open>[0, width)\<close> or y in
  \<open>[0, height)\<close>.\<close>

definition claimed_visible :: "int \<times> int \<Rightarrow> corner \<Rightarrow> bool" where
  "claimed_visible rgb_img_size p =
     (case p of
        (x, y, z) \<Rightarrow>
          z > 0 \<and> ((0 \<le> x \<and> x < real_of_int (fst rgb_img_size))
                  \<or> (0 \<le> y \<and> y < real_of_int (snd rgb_img_size))))"

text \<open>The test as the loop body makes it.\<close>

definition retained :: "int \<times> int \<Rightarrow> corner \<Rightarrow> bool" where
  "retained rgb_img_size p =
     (case p of
        (x, y, z) \<Rightarrow>
          z > 0 \<and> (x \<ge> 0 \<or> y \<ge> 0)
                \<and> (x < real_of_int (fst rgb_img_size) \<or> y < real_of_int (snd rgb_img_size)))"

subsection \<open>The vocabulary of the specification for the depth test and the size filter\<close>

text \<open>The depth buffer has the shape of the image: \<open>height\<close> rows of \<open>width\<close> values.\<close>

definition depth_shape :: "real list list \<Rightarrow> int \<times> int \<Rightarrow> bool" where
  "depth_shape depth_array rgb_img_size =
     (int (length depth_array) = snd rgb_img_size
      \<and> (\<forall>row \<in> set depth_array. int (length row) = fst rgb_img_size))"

text \<open>The box is wider than 1% of the image width, higher than 2% of the image height, and
  its area is more than 0.04% of the image area.\<close>

definition large_enough :: "int \<times> int \<Rightarrow> int \<times> int \<times> int \<times> int \<Rightarrow> bool" where
  "large_enough rgb_img_size box =
     (case box of
        (xmin, xmax, ymin, ymax) \<Rightarrow>
          real_of_int (xmax - xmin) > 0.01 * real_of_int (fst rgb_img_size)
          \<and> real_of_int (ymax - ymin) > 0.02 * real_of_int (snd rgb_img_size)
          \<and> real_of_int ((xmax - xmin) * (ymax - ymin))
              > 0.0004 * real_of_int (fst rgb_img_size * snd rgb_img_size))"

text \<open>The point matches the depth buffer within the threshold: the read succeeds and
  \<open>have_same_depth\<close> is true.\<close>

definition depth_matches :: "real list list \<Rightarrow> real \<Rightarrow> corner \<Rightarrow> bool" where
  "depth_matches depth_array threshold p =
     (case p of (x, y, z) \<Rightarrow> have_same_depth x y z depth_array threshold = Inr True)"

text \<open>The midpoint of the two ends, with the depth of the second, and the six offset points
  around a midpoint.\<close>

definition midpoint :: "corner \<times> corner \<Rightarrow> corner" where
  "midpoint ends =
     (case ends of ((a0, a1, a2), (b0, b1, b2)) \<Rightarrow> ((a0 + b0) / 2, (a1 + b1) / 2, b2))"

definition offset_points :: "corner \<Rightarrow> corner list" where
  "offset_points m =
     (case m of
        (m0, m1, m2) \<Rightarrow>
          [(m0 + 2, m1, m2), (m0 + 1, m1 + 1, m2), (m0 + 1, m1 - 1, m2),
           (m0 - 2, m1, m2), (m0 - 1, m1 + 1, m2), (m0 - 1, m1 - 1, m2)])"

text \<open>The neighbour test on a set of sample points: those inside the image are not empty, and
  the number of them that match the depth buffer is at least 0.4 times their number.\<close>

definition neighbor_accept :: "real list list \<Rightarrow> int \<times> int \<Rightarrow> real \<Rightarrow> corner list \<Rightarrow> bool" where
  "neighbor_accept depth_array rgb_img_size neighbor_threshold points =
     (let inside = filter (\<lambda>(x, y, z). inside_image x y (fst rgb_img_size) (snd rgb_img_size))
                     points
      in inside \<noteq> []
         \<and> real (length (filter (depth_matches depth_array neighbor_threshold) inside))
             \<ge> 0.4 * real (length inside))"

subsection \<open>The points whose depth is read\<close>



subsection \<open>Example scenes\<close>

text \<open>A pose without rotation, a box of half-width 1 in its own frame, and the intrinsic
  matrices of a 90 degree camera for a 20 by 20 and an 800 by 600 image (focal length
  \<open>width / 2\<close>, principal point at the image centre).\<close>

definition unit_scale :: Scale where
  "unit_scale = \<lparr>scale_x = 1, scale_y = 1, scale_z = 1\<rparr>"

definition translation :: "real \<Rightarrow> real \<Rightarrow> real \<Rightarrow> Transform" where
  "translation tx ty tz = Transform_init \<lparr>loc_x = tx, loc_y = ty, loc_z = tz\<rparr> 0 0 0 unit_scale"

definition unit_box :: BoundingBox where
  "unit_box = \<lparr>transform = translation 0 0 0, extent = \<lparr>ext_x = 1, ext_y = 1, ext_z = 1\<rparr>\<rparr>"

definition intrinsic_20 :: mat3 where
  "intrinsic_20 = ((10, 0, 10), (0, 10, 10), (0, 0, 1))"

definition intrinsic_800 :: mat3 where
  "intrinsic_800 = ((400, 0, 400), (0, 400, 300), (0, 0, 1))"

section \<open>control/pid_control_operator.py\<close>

text \<open>
  A steering value is a double. Every operation of \<open>_get_steering\<close> on finite doubles is
  idealised over the reals, with one exception: numpy divides \<open>0.0 / 0.0\<close> to \<open>nan\<close> (it warns
  and does not raise), and the \<open>nan\<close> then travels through the rest of the function. \<open>NaN\<close> is
  that value.
\<close>

datatype pyfloat = Num real | NaN

text \<open>The command-line flags read by the operator.\<close>

record Flags =
  default_throttle :: real
  throttle_max :: real
  brake_strength :: real
  steer_gain :: real

text \<open>
  The class \<open>PID\<close> comes from the package \<open>pid_controller\<close>, which is not part of the
  repository. It is a parameter of the model: \<open>'p\<close> is the state of a controller,
  \<open>PID kp ki kd\<close> constructs one, \<open>set_target\<close> is the assignment \<open>pid.target = v\<close>, and
  \<open>call p feedback\<close> is \<open>pid(feedback=feedback)\<close>, which returns the output and updates the
  controller.
\<close>

record 'p PID_library =
  PID :: "real \<Rightarrow> real \<Rightarrow> real \<Rightarrow> 'p"
  set_target :: "'p \<Rightarrow> real \<Rightarrow> 'p"
  call :: "'p \<Rightarrow> real \<Rightarrow> real \<times> 'p"

text \<open>The dictionary \<open>longitudinal_control_args\<close> with its three required keys.\<close>

record LongitudinalControlArgs =
  K_P :: real
  K_I :: real
  K_D :: real

text \<open>
  The messages are declared outside the sources at hand; they are modelled from the
  attributes the operator reads and from the constructor call it makes:
  \<open>msg.target_speed\<close> and \<open>msg.waypoints\<close> of a waypoint message, \<open>msg.data.forward_speed\<close>,
  \<open>msg.data.transform\<close> and \<open>msg.timestamp\<close> of a can-bus message, and
  \<open>ControlMessage(steer, throttle, brake, hand_brake, reverse, timestamp)\<close>.
\<close>

type_synonym timestamp = "int list"

record WaypointsMessage =
  target_speed :: real
  waypoints :: "Transform list"

record CanBus =
  forward_speed :: real
  can_bus_transform :: Transform

record CanBusMessage =
  data :: CanBus
  timestamp :: timestamp

datatype ControlMessage = ControlMessage pyfloat real real bool bool timestamp

text \<open>The attributes of the operator that its callbacks read or write: \<open>self._flags\<close> is
  \<open>self_flags\<close>, and so on (the loggers and the stored argument dictionary are left out).\<close>

record 'p PIDControlOperator =
  self_flags :: Flags
  self_pid :: 'p
  self_vehicle_transform :: "Transform option"
  self_last_waypoint_msg :: "WaypointsMessage option"
  self_latest_speed :: real

text \<open>\<open>PIDControlOperator.__init__\<close>.\<close>

definition PIDControlOperator_init ::
  "'p PID_library \<Rightarrow> LongitudinalControlArgs \<Rightarrow> Flags \<Rightarrow> 'p PIDControlOperator"
where
  "PIDControlOperator_init lib longitudinal_control_args flags =
     \<lparr>self_flags = flags,
      self_pid = PID lib (K_P longitudinal_control_args) (K_I longitudinal_control_args)
              (K_D longitudinal_control_args),
      self_vehicle_transform = None,
      self_last_waypoint_msg = None,
      self_latest_speed = 0\<rparr>"

text \<open>\<open>PIDControlOperator._get_throttle_brake\<close>; the result carries the operator with its
  updated controller.\<close>

definition get_throttle_brake ::
  "'p PID_library \<Rightarrow> 'p PIDControlOperator \<Rightarrow> real \<Rightarrow> (real \<times> real) \<times> 'p PIDControlOperator"
where
  "get_throttle_brake lib self target_speed0 =
     (case call lib (set_target lib (self_pid self) target_speed0) (self_latest_speed self) of
        (pid_gain, pid') \<Rightarrow>
          let throttle = min (max (default_throttle (self_flags self) - 1.3 * pid_gain) 0)
                           (throttle_max (self_flags self));
              brake = (if pid_gain > 0.5
                       then min (0.35 * pid_gain * brake_strength (self_flags self)) 1
                       else 0)
          in ((throttle, brake), self\<lparr>self_pid := pid'\<rparr>))"

text \<open>\<open>np.linalg.norm\<close> of an array of three, and the third component of \<open>np.cross\<close>.\<close>

fun norm3 :: "vec3 \<Rightarrow> real" where
  "norm3 (v0, v1, v2) = sqrt (v0\<^sup>2 + v1\<^sup>2 + v2\<^sup>2)"

fun cross_z :: "vec3 \<Rightarrow> vec3 \<Rightarrow> real" where
  "cross_z (a0, a1, a2) (b0, b1, b2) = a0 * b1 - a1 * b0"

text \<open>
  \<open>v /= np.linalg.norm(v)\<close>. The norm is zero only for the zero vector; numpy then computes
  \<open>0.0 / 0.0\<close> in every component, which is \<open>nan\<close> with a \<open>RuntimeWarning\<close> and no exception.
  \<open>None\<close> stands for that array of \<open>nan\<close>.
\<close>

fun normalize :: "vec3 \<Rightarrow> vec3 option" where
  "normalize (v0, v1, v2) =
     (let n = norm3 (v0, v1, v2)
      in if n = 0 then None else Some (v0 / n, v1 / n, v2 / n))"

text \<open>
  \<open>math.acos\<close> raises \<open>ValueError\<close> outside \<open>[-1, 1]\<close>. Its argument in \<open>_get_steering\<close> is
  the dot product of two normalised vectors. In exact arithmetic that lies in \<open>[-1, 1]\<close>; in
  doubles every step is rounded, and the product can come out as \<open>1.0000000000000002\<close>, one
  unit in the last place above 1. The rounding itself is outside this embedding.
\<close>

definition math_acos :: "real \<Rightarrow> error + real" where
  "math_acos v = (if - 1 \<le> v \<and> v \<le> 1 then Inr (arccos v) else Inl ValueError)"

text \<open>
  \<open>PIDControlOperator._get_steering\<close>. Reading \<open>.x\<close> of a location that is \<open>None\<close> raises
  \<open>AttributeError\<close>. When the waypoint vector is the array of \<open>nan\<close>, \<open>np.dot\<close> and
  \<open>math.acos\<close> return \<open>nan\<close>, the comparison \<open>np.cross(...)[2] < 0\<close> and the comparison
  \<open>steering > 0\<close> are false, and \<open>max(nan, -1)\<close> returns its first argument: the function
  returns \<open>nan\<close>.
\<close>

definition get_steering :: "'p PIDControlOperator \<Rightarrow> Transform \<Rightarrow> error + pyfloat" where
  "get_steering self waypoint_transform =
     (case self_vehicle_transform self of
        None \<Rightarrow> Inl AssertionError
      | Some vt \<Rightarrow>
          (case location waypoint_transform of
             None \<Rightarrow> Inl AttributeError
           | Some wl \<Rightarrow>
               (case location vt of
                  None \<Rightarrow> Inl AttributeError
                | Some vl \<Rightarrow>
                    let wp_vector = (loc_x wl - loc_x vl, loc_y wl - loc_y vl, 0 - 0);
                        v_vector = (cos (radians (rot_yaw (rotation vt))),
                                    sin (radians (rot_yaw (rotation vt))), 0)
                    in case normalize wp_vector of
                         None \<Rightarrow> Inr NaN
                       | Some wp \<Rightarrow>
                           (case normalize v_vector of
                              None \<Rightarrow> Inr NaN
                            | Some v \<Rightarrow>
                                (case math_acos (dot3 v wp) of
                                   Inl e \<Rightarrow> Inl e
                                 | Inr angle \<Rightarrow>
                                     let angle = (if cross_z v wp < 0 then angle * - 1
                                                  else angle);
                                         steering = steer_gain (self_flags self) * angle
                                     in Inr (Num (if steering > 0 then min steering 1
                                                  else max steering (- 1))))))))"

text \<open>
  \<open>PIDControlOperator.on_can_bus_update\<close>: the result is the operator after the callback and
  the message sent on \<open>control_stream\<close>. \<open>waypoints[0]\<close> of an empty list raises
  \<open>IndexError\<close>. A message object is true in the \<open>if\<close>, \<open>None\<close> is false.
\<close>

definition on_can_bus_update ::
  "'p PID_library \<Rightarrow> 'p PIDControlOperator \<Rightarrow> CanBusMessage
     \<Rightarrow> error + ('p PIDControlOperator \<times> ControlMessage)"
where
  "on_can_bus_update lib self msg =
     (let self = self\<lparr>self_latest_speed := forward_speed (data msg),
                       self_vehicle_transform := Some (can_bus_transform (data msg))\<rparr>
      in case self_last_waypoint_msg self of
           None \<Rightarrow> Inr (self, ControlMessage (Num 0) 0 0 False False (timestamp msg))
         | Some wmsg \<Rightarrow>
             (case get_throttle_brake lib self (target_speed wmsg) of
                ((throttle, brake), self) \<Rightarrow>
                  (case waypoints wmsg of
                     [] \<Rightarrow> Inl IndexError
                   | waypoint # _ \<Rightarrow>
                       (case get_steering self waypoint of
                          Inl e \<Rightarrow> Inl e
                        | Inr steer \<Rightarrow>
                            Inr (self,
                                 ControlMessage steer throttle brake False False
                                   (timestamp msg))))))"

text \<open>\<open>PIDControlOperator.on_waypoint\<close>.\<close>

definition on_waypoint :: "'p PIDControlOperator \<Rightarrow> WaypointsMessage \<Rightarrow> 'p PIDControlOperator" where
  "on_waypoint self msg = self\<lparr>self_last_waypoint_msg := Some msg\<rparr>"

text \<open>The callback \<open>on_can_bus_update\<close> run on a sequence of can-bus messages, with the
  control messages sent; an exception ends the run.\<close>

fun can_bus_updates ::
  "'p PID_library \<Rightarrow> 'p PIDControlOperator \<Rightarrow> CanBusMessage list
     \<Rightarrow> error + ('p PIDControlOperator \<times> ControlMessage list)"
where
  "can_bus_updates lib self [] = Inr (self, [])"
| "can_bus_updates lib self (msg # msgs) =
     (case on_can_bus_update lib self msg of
        Inl e \<Rightarrow> Inl e
      | Inr (self', sent) \<Rightarrow>
          (case can_bus_updates lib self' msgs of
             Inl e \<Rightarrow> Inl e
           | Inr (self'', sents) \<Rightarrow> Inr (self'', sent # sents)))"

subsection \<open>The vocabulary of the specification for the controller\<close>

text \<open>\<open>clamp(v, lo, hi)\<close>.\<close>

definition clamp :: "real \<Rightarrow> real \<Rightarrow> real \<Rightarrow> real" where
  "clamp v lo hi = (if v < lo then lo else if hi < v then hi else v)"

text \<open>
  The steering law in the words of the specification: the heading is the unit vector of the
  yaw, the vector to the waypoint is normalised in the plane, the angle is the arc cosine of
  their dot product, negated when the z-component of their cross product is negative, and
  the output is the gain times the angle, clamped into \<open>[-1, 1]\<close>.
\<close>

definition steering_law :: "real \<Rightarrow> real \<Rightarrow> Location \<Rightarrow> Location \<Rightarrow> real" where
  "steering_law gain yaw vehicle waypoint =
     (let hx = cos (radians yaw); hy = sin (radians yaw);
          dx = loc_x waypoint - loc_x vehicle; dy = loc_y waypoint - loc_y vehicle;
          len = sqrt (dx\<^sup>2 + dy\<^sup>2);
          tx = dx / len; ty = dy / len;
          angle = arccos (hx * tx + hy * ty);
          signed = (if hx * ty - hy * tx < 0 then - angle else angle)
      in clamp (gain * signed) (- 1) 1)"

text \<open>The neutral command for a can-bus message.\<close>

definition neutral_command :: "CanBusMessage \<Rightarrow> ControlMessage" where
  "neutral_command msg = ControlMessage (Num 0) 0 0 False False (timestamp msg)"

subsection \<open>Example controller\<close>

text \<open>
  A stand-in for the controller library with a proportional law: the state is the pair of
  the gain and the target, and the output is the gain times (measured speed - target). With
  it come a set of flags, a planar pose, and an operator whose vehicle has a pose.
\<close>

definition proportional_pid :: "(real \<times> real) PID_library" where
  "proportional_pid =
     \<lparr>PID = (\<lambda>kp ki kd. (kp, 0)),
      set_target = (\<lambda>p v. (fst p, v)),
      call = (\<lambda>p feedback. (fst p * (feedback - snd p), p))\<rparr>"

definition example_flags :: Flags where
  "example_flags =
     \<lparr>default_throttle = 0.5, throttle_max = 1, brake_strength = 1, steer_gain = 1\<rparr>"

definition pose :: "real \<Rightarrow> real \<Rightarrow> real \<Rightarrow> Transform" where
  "pose px py yaw = Transform_init \<lparr>loc_x = px, loc_y = py, loc_z = 0\<rparr> 0 yaw 0 unit_scale"

definition example_operator :: "(real \<times> real) PIDControlOperator" where
  "example_operator =
     PIDControlOperator_init proportional_pid \<lparr>K_P = 1, K_I = 0, K_D = 0\<rparr> example_flags"

section \<open>Properties of the corner-pair selection\<close>

lemma opp_ends_step_cases:
  "opp_ends_step (md, opp) (a, b) =
     (if axis_degenerate a b \<or> sq_dist_2d a b \<le> md then (md, opp)
      else (sq_dist_2d a b, Some (if min_corner_first a b then (a, b) else (b, a))))"
  by (cases a; cases b) (auto simp: axis_degenerate_def sq_dist_2d_def min_corner_first_def Let_def)

lemma qualifying_sq_dist_pos: "\<not> axis_degenerate a b \<Longrightarrow> 0 < sq_dist_2d a b"
proof -
  assume "\<not> axis_degenerate a b"
  then have "fst b - fst a \<noteq> 0"
    by (auto simp: axis_degenerate_def)
  then have "0 < (fst b - fst a)\<^sup>2"
    by simp
  moreover have "0 \<le> (fst (snd b) - fst (snd a))\<^sup>2"
    by simp
  ultimately show ?thesis
    unfolding sq_dist_2d_def by linarith
qed

lemma foldl_opp_ends_step:
  assumes "foldl opp_ends_step (md, opp) ps = (md', opp')"
  shows "md \<le> md'
     \<and> (\<forall>p \<in> set ps. \<not> axis_degenerate (fst p) (snd p) \<longrightarrow> sq_dist_2d (fst p) (snd p) \<le> md')
     \<and> ((md' = md \<and> opp' = opp)
        \<or> (\<exists>p \<in> set ps. \<not> axis_degenerate (fst p) (snd p) \<and> sq_dist_2d (fst p) (snd p) = md'
              \<and> md < md'
              \<and> opp' = Some (if min_corner_first (fst p) (snd p) then p else (snd p, fst p))))"
  using assms
proof (induction ps arbitrary: md opp)
  case Nil
  then show ?case by simp
next
  case (Cons p ps)
  let ?Q = "\<lambda>p. \<not> axis_degenerate (fst p) (snd p)"
  let ?D = "\<lambda>p. sq_dist_2d (fst p) (snd p)"
  let ?O = "\<lambda>p. Some (if min_corner_first (fst p) (snd p) then p else (snd p, fst p))"
  have step: "opp_ends_step (md, opp) p =
      (if \<not> ?Q p \<or> ?D p \<le> md then (md, opp) else (?D p, ?O p))"
    using opp_ends_step_cases [of md opp "fst p" "snd p"] by simp
  show ?case
  proof (cases "\<not> ?Q p \<or> ?D p \<le> md")
    case True
    then have "foldl opp_ends_step (md, opp) ps = (md', opp')"
      using Cons.prems step by simp
    from Cons.IH [OF this] have ih:
      "md \<le> md'"
      "\<forall>q \<in> set ps. ?Q q \<longrightarrow> ?D q \<le> md'"
      "(md' = md \<and> opp' = opp)
        \<or> (\<exists>q \<in> set ps. ?Q q \<and> ?D q = md' \<and> md < md' \<and> opp' = ?O q)"
      by blast+
    have 2: "\<forall>q \<in> set (p # ps). ?Q q \<longrightarrow> ?D q \<le> md'"
    proof
      fix q assume "q \<in> set (p # ps)"
      then consider "q = p" | "q \<in> set ps" by auto
      then show "?Q q \<longrightarrow> ?D q \<le> md'"
      proof cases
        case 1
        then show ?thesis using True ih(1) by auto
      next
        case 2
        then show ?thesis using ih(2) by blast
      qed
    qed
    have 3: "(md' = md \<and> opp' = opp)
        \<or> (\<exists>q \<in> set (p # ps). ?Q q \<and> ?D q = md' \<and> md < md' \<and> opp' = ?O q)"
      using ih(3) by (metis list.set_intros(2))
    from ih(1) 2 3 show ?thesis by blast
  next
    case False
    then have run: "foldl opp_ends_step (?D p, ?O p) ps = (md', opp')"
      using Cons.prems step by simp
    from Cons.IH [OF run] have ih:
      "?D p \<le> md'"
      "\<forall>q \<in> set ps. ?Q q \<longrightarrow> ?D q \<le> md'"
      "(md' = ?D p \<and> opp' = ?O p)
        \<or> (\<exists>q \<in> set ps. ?Q q \<and> ?D q = md' \<and> ?D p < md' \<and> opp' = ?O q)"
      by blast+
    from False have lt: "md < ?D p" and q: "?Q p"
      by auto
    have 1: "md \<le> md'"
      using lt ih(1) by linarith
    have 2: "\<forall>q \<in> set (p # ps). ?Q q \<longrightarrow> ?D q \<le> md'"
    proof
      fix r assume "r \<in> set (p # ps)"
      then consider "r = p" | "r \<in> set ps" by auto
      then show "?Q r \<longrightarrow> ?D r \<le> md'"
      proof cases
        case 1
        then show ?thesis using ih(1) by simp
      next
        case 2
        then show ?thesis using ih(2) by blast
      qed
    qed
    have 3: "\<exists>r \<in> set (p # ps). ?Q r \<and> ?D r = md' \<and> md < md' \<and> opp' = ?O r"
      using ih(3)
    proof
      assume "md' = ?D p \<and> opp' = ?O p"
      then have "?Q p \<and> ?D p = md' \<and> md < md' \<and> opp' = ?O p"
        using q lt by simp
      then show ?thesis
        by (metis list.set_intros(1))
    next
      assume "\<exists>r \<in> set ps. ?Q r \<and> ?D r = md' \<and> ?D p < md' \<and> opp' = ?O r"
      then obtain r where r: "r \<in> set ps" "?Q r" "?D r = md'" "?D p < md'" "opp' = ?O r"
        by blast
      have "md < md'"
        using lt r(4) by linarith
      then have "?Q r \<and> ?D r = md' \<and> md < md' \<and> opp' = ?O r"
        using r by simp
      then show ?thesis
        using r(1) by (metis list.set_intros(2))
    qed
    from 1 2 3 show ?thesis by blast
  qed
qed

lemma axis_degenerate_sym: "axis_degenerate a b = axis_degenerate b a"
  by (simp add: axis_degenerate_def abs_minus_commute)

lemma sq_dist_2d_sym: "sq_dist_2d a b = sq_dist_2d b a"
  by (simp add: sq_dist_2d_def power2_commute)

text \<open>
  Claim C3, as amended. For every corner list: no pair is returned exactly when every pair of
  \<open>combinations\<close> is axis-degenerate (x- or y-separation at most 0.8). A returned pair
  \<open>(p, q)\<close> is not axis-degenerate, its squared 2-D distance is maximal among the pairs that
  are not axis-degenerate, and it is oriented as follows: either it was enumerated as
  \<open>(p, q)\<close> and \<open>p\<close> is smaller than \<open>q\<close> in x and in y, or it was enumerated as \<open>(q, p)\<close>
  and \<open>q\<close> is not smaller than \<open>p\<close> in both x and y (the pair is then returned reversed).
\<close>

theorem get_bounding_box_from_corners_selects:
  "(get_bounding_box_from_corners cs = None
      \<longleftrightarrow> (\<forall>r \<in> set (combinations cs). axis_degenerate (fst r) (snd r)))
   \<and> (\<forall>p q. get_bounding_box_from_corners cs = Some (p, q) \<longrightarrow>
         \<not> axis_degenerate p q
       \<and> (\<forall>r \<in> set (combinations cs). \<not> axis_degenerate (fst r) (snd r)
             \<longrightarrow> sq_dist_2d (fst r) (snd r) \<le> sq_dist_2d p q)
       \<and> ((p, q) \<in> set (combinations cs) \<and> min_corner_first p q
          \<or> (q, p) \<in> set (combinations cs) \<and> \<not> min_corner_first q p))"
proof -
  obtain md' opp' where run: "foldl opp_ends_step (0, None) (combinations cs) = (md', opp')"
    by (cases "foldl opp_ends_step (0, None) (combinations cs)")
  then have res: "get_bounding_box_from_corners cs = opp'"
    by (simp add: get_bounding_box_from_corners_def)
  let ?ps = "combinations cs"
  from foldl_opp_ends_step [OF run] have inv:
    "\<forall>r \<in> set ?ps. \<not> axis_degenerate (fst r) (snd r) \<longrightarrow> sq_dist_2d (fst r) (snd r) \<le> md'"
    "(md' = 0 \<and> opp' = None)
      \<or> (\<exists>r \<in> set ?ps. \<not> axis_degenerate (fst r) (snd r) \<and> sq_dist_2d (fst r) (snd r) = md'
            \<and> 0 < md'
            \<and> opp' = Some (if min_corner_first (fst r) (snd r) then r else (snd r, fst r)))"
    by blast+
  have none: "opp' = None \<longleftrightarrow> (\<forall>r \<in> set ?ps. axis_degenerate (fst r) (snd r))"
  proof
    assume "opp' = None"
    then have "md' = 0"
      using inv(2) by auto
    show "\<forall>r \<in> set ?ps. axis_degenerate (fst r) (snd r)"
    proof (rule ballI, rule ccontr)
      fix r assume r: "r \<in> set ?ps" "\<not> axis_degenerate (fst r) (snd r)"
      then have "sq_dist_2d (fst r) (snd r) \<le> 0"
        using inv(1) \<open>md' = 0\<close> by blast
      moreover have "0 < sq_dist_2d (fst r) (snd r)"
        using r(2) by (rule qualifying_sq_dist_pos)
      ultimately show False by linarith
    qed
  next
    assume "\<forall>r \<in> set ?ps. axis_degenerate (fst r) (snd r)"
    then show "opp' = None"
      using inv(2) by blast
  qed
  have some: "\<not> axis_degenerate p q
       \<and> (\<forall>r \<in> set ?ps. \<not> axis_degenerate (fst r) (snd r)
             \<longrightarrow> sq_dist_2d (fst r) (snd r) \<le> sq_dist_2d p q)
       \<and> ((p, q) \<in> set ?ps \<and> min_corner_first p q \<or> (q, p) \<in> set ?ps \<and> \<not> min_corner_first q p)"
    if "opp' = Some (p, q)" for p q
  proof -
    from that inv(2) obtain r where r: "r \<in> set ?ps" "\<not> axis_degenerate (fst r) (snd r)"
      "sq_dist_2d (fst r) (snd r) = md'"
      "Some (p, q) = Some (if min_corner_first (fst r) (snd r) then r else (snd r, fst r))"
      by auto
    show ?thesis
    proof (cases "min_corner_first (fst r) (snd r)")
      case True
      then have "r = (p, q)"
        using r(4) by simp
      then show ?thesis
        using r(1,2,3) True inv(1) by auto
    next
      case False
      then have pq: "p = snd r" "q = fst r"
        using r(4) by simp_all
      then have "r = (q, p)"
        by simp
      then have "(q, p) \<in> set ?ps" "\<not> min_corner_first q p" "\<not> axis_degenerate q p"
        "sq_dist_2d q p = md'"
        using r(1,2,3) False by simp_all
      then show ?thesis
        using inv(1) axis_degenerate_sym [of p q] sq_dist_2d_sym [of p q] by simp
    qed
  qed
  show ?thesis
    unfolding res
  proof (intro conjI allI impI)
    show "opp' = None \<longleftrightarrow> (\<forall>r \<in> set ?ps. axis_degenerate (fst r) (snd r))"
      by (rule none)
  next
    fix p q assume "opp' = Some (p, q)"
    from some [OF this]
    show "\<not> axis_degenerate p q"
      and "\<forall>r \<in> set ?ps. \<not> axis_degenerate (fst r) (snd r)
             \<longrightarrow> sq_dist_2d (fst r) (snd r) \<le> sq_dist_2d p q"
      and "(p, q) \<in> set ?ps \<and> min_corner_first p q \<or> (q, p) \<in> set ?ps \<and> \<not> min_corner_first q p"
      by simp_all
  qed
qed

text \<open>
  Claim C3 as stated fails in its orientation: for eight corners whose first two lie on an
  anti-diagonal the function returns that pair reversed, and the first corner returned has
  the larger x.
\<close>

theorem get_bounding_box_from_corners_orientation_counterexample:
  "get_bounding_box_from_corners
     [(0, 10, 5), (10, 0, 5), (0, 10, 6), (10, 0, 6), (0, 0, 5), (10, 10, 5), (0, 0, 6), (10, 10, 6)]
     = Some ((10, 0, 5), (0, 10, 5))
   \<and> \<not> min_corner_first (10, 0, 5) (0, 10, 5)"
  by (simp add: get_bounding_box_from_corners_def min_corner_first_def)

theorem get_bounding_box_from_corners_selects_witness:
  "get_bounding_box_from_corners [(0, 0, 5), (10, 0, 5), (0, 12, 5), (10, 12, 5)]
     = Some ((0, 0, 5), (10, 12, 5))
   \<and> \<not> axis_degenerate (0, 0, 5) (10, 12, 5)
   \<and> sq_dist_2d (10, 0, 5) (0, 12, 5) \<le> sq_dist_2d (0, 0, 5) (10, 12, 5)
   \<and> min_corner_first (0, 0, 5) (10, 12, 5)"
proof -
  let ?cs = "[(0, 0, 5), (10, 0, 5), (0, 12, 5), (10, 12, 5)] :: corner list"
  have h: "get_bounding_box_from_corners ?cs = Some ((0, 0, 5), (10, 12, 5))"
    by (simp add: get_bounding_box_from_corners_def)
  have m: "((10, 0, 5), (0, 12, 5)) \<in> set (combinations ?cs)"
    by simp
  have q: "\<not> axis_degenerate (10, 0, 5) (0, 12, 5)"
    by (simp add: axis_degenerate_def)
  from get_bounding_box_from_corners_selects [of ?cs] h
  have "\<not> axis_degenerate (0, 0, 5) (10, 12, 5)
       \<and> (\<forall>r \<in> set (combinations ?cs). \<not> axis_degenerate (fst r) (snd r)
             \<longrightarrow> sq_dist_2d (fst r) (snd r) \<le> sq_dist_2d (0, 0, 5) (10, 12, 5))"
    by blast
  with m q h show ?thesis
    by (auto simp: min_corner_first_def)
qed

section \<open>Properties of the projection\<close>

lemma add_point_retained: "add_point sz acc p = (if retained sz p then acc @ [p] else acc)"
  by (cases sz; cases p) (auto simp: retained_def)

lemma foldl_add_point: "foldl (add_point sz) acc ps = acc @ filter (retained sz) ps"
  by (induction ps arbitrary: acc) (simp_all add: add_point_retained)

lemma claimed_visible_retained: "claimed_visible sz p \<Longrightarrow> retained sz p"
  by (cases p) (auto simp: claimed_visible_def retained_def)

lemma map_ground_bounding_box_to_2D_filter:
  assumes "linalg_inv (matrix (Transform_mul vehicle_transform rgb_transform)) = Inr inv_extrinsic"
  shows "map_ground_bounding_box_to_2D vehicle_transform obj_transform bounding_box rgb_transform
           rgb_intrinsic rgb_img_size
         = Inr (filter (retained rgb_img_size)
                  (map (project_vertex inv_extrinsic rgb_intrinsic rgb_img_size)
                     (bbox_vertices obj_transform bounding_box)))"
  using assms by (simp add: map_ground_bounding_box_to_2D_def foldl_add_point)

lemma map_ground_bounding_box_to_2D_error:
  assumes "linalg_inv (matrix (Transform_mul vehicle_transform rgb_transform)) = Inl e"
  shows "map_ground_bounding_box_to_2D vehicle_transform obj_transform bounding_box rgb_transform
           rgb_intrinsic rgb_img_size = Inl e"
  using assms by (simp add: map_ground_bounding_box_to_2D_def)

lemmas evaluate_projection =
  Transform_init_def radians_def Transform_mul_def Transform_of_matrix_def mat4_mul_def
  bbox_vertices_def transform_points_def map_ground_bounding_box_to_2D_def Let_def

lemmas evaluate_scene =
  translation_def unit_scale_def unit_box_def intrinsic_20_def intrinsic_800_def
  evaluate_projection

text \<open>
  Claim C1, as amended. Whenever the extrinsic matrix is invertible, the returned list is the
  list of the projected vertices, in order, restricted to the points with
  \<open>z > 0\<close>, \<open>(x \<ge> 0 or y \<ge> 0)\<close> and \<open>(x < width or y < height)\<close>. Every projected point with
  positive depth and x in \<open>[0, width)\<close> or y in \<open>[0, height)\<close> is therefore returned.
\<close>

theorem map_ground_bounding_box_to_2D_retains:
  assumes "linalg_inv (matrix (Transform_mul vehicle_transform rgb_transform)) = Inr inv_extrinsic"
  shows "\<exists>coords.
           map_ground_bounding_box_to_2D vehicle_transform obj_transform bounding_box
             rgb_transform rgb_intrinsic (image_width, image_height) = Inr coords
         \<and> coords =
             filter (\<lambda>(x, y, z). z > 0 \<and> (x \<ge> 0 \<or> y \<ge> 0)
                                 \<and> (x < real_of_int image_width \<or> y < real_of_int image_height))
               (map (project_vertex inv_extrinsic rgb_intrinsic (image_width, image_height))
                  (bbox_vertices obj_transform bounding_box))
         \<and> (\<forall>p \<in> set (map (project_vertex inv_extrinsic rgb_intrinsic (image_width, image_height))
                        (bbox_vertices obj_transform bounding_box)).
               claimed_visible (image_width, image_height) p \<longrightarrow> p \<in> set coords)"
proof -
  let ?ps = "map (project_vertex inv_extrinsic rgb_intrinsic (image_width, image_height))
               (bbox_vertices obj_transform bounding_box)"
  have eq: "retained (image_width, image_height) =
      (\<lambda>(x, y, z). z > 0 \<and> (x \<ge> 0 \<or> y \<ge> 0)
                     \<and> (x < real_of_int image_width \<or> y < real_of_int image_height))"
    by (auto simp: retained_def fun_eq_iff)
  have "map_ground_bounding_box_to_2D vehicle_transform obj_transform bounding_box
          rgb_transform rgb_intrinsic (image_width, image_height)
        = Inr (filter (retained (image_width, image_height)) ?ps)"
    using assms by (rule map_ground_bounding_box_to_2D_filter)
  moreover have "\<forall>p \<in> set ?ps. claimed_visible (image_width, image_height) p
      \<longrightarrow> p \<in> set (filter (retained (image_width, image_height)) ?ps)"
    using claimed_visible_retained by auto
  ultimately show ?thesis
    unfolding eq by blast
qed

text \<open>
  Claim C1 as stated fails: a box to the side of and above the field of view projects all
  eight corners with positive depth, x beyond the image width (800) and y negative. None has
  a coordinate in range, and all eight are returned.
\<close>

theorem map_ground_bounding_box_to_2D_or_counterexample:
  "map_ground_bounding_box_to_2D (translation 0 0 0) (translation (- 20) 10 10) unit_box
       (translation 0 0 0) intrinsic_800 (800, 600)
   = Inr [(12000 / 11, - 100, 11), (12000 / 11, - (300 / 11), 11),
          (11200 / 9, - (1700 / 9), 9), (11200 / 9, - 100, 9),
          (12800 / 11, - 100, 11), (12800 / 11, - (300 / 11), 11),
          (4000 / 3, - (1700 / 9), 9), (4000 / 3, - 100, 9)]
   \<and> \<not> claimed_visible (800, 600) (12000 / 11, - 100, 11)"
  by (simp add: evaluate_scene claimed_visible_def)

theorem map_ground_bounding_box_to_2D_retains_witness:
  "linalg_inv (matrix (Transform_mul (translation 0 0 0) (translation 0 0 0)))
     = Inr ((1, 0, 0, 0), (0, 1, 0, 0), (0, 0, 1, 0), (0, 0, 0, 1))
   \<and> map_ground_bounding_box_to_2D (translation 0 0 0) (translation 0 0 10) unit_box
       (translation 0 0 0) intrinsic_20 (20, 20)
     = Inr [(100 / 11, 100 / 11, 11), (100 / 11, 120 / 11, 11),
            (80 / 9, 80 / 9, 9), (80 / 9, 100 / 9, 9), (120 / 11, 100 / 11, 11),
            (120 / 11, 120 / 11, 11), (100 / 9, 80 / 9, 9), (100 / 9, 100 / 9, 9)]
   \<and> claimed_visible (20, 20) (100 / 11, 100 / 11, 11)"
proof -
  let ?I = "((1, 0, 0, 0), (0, 1, 0, 0), (0, 0, 1, 0), (0, 0, 0, 1)) :: mat4"
  have h: "linalg_inv (matrix (Transform_mul (translation 0 0 0) (translation 0 0 0))) = Inr ?I"
    by (simp add: evaluate_scene)
  from map_ground_bounding_box_to_2D_retains
         [OF h, of "translation 0 0 10" unit_box intrinsic_20 20 20] h
  show ?thesis
    by (simp add: evaluate_scene claimed_visible_def)
qed

section \<open>Properties of the 2-D box\<close>

lemma py_int_inside:
  assumes "0 \<le> v" "v < real_of_int n"
  shows "0 \<le> py_int v \<and> py_int v < n"
  using assms by (simp add: py_int_def floor_less_iff)

lemma getitem_in_range: "0 \<le> i \<Longrightarrow> i < int (length xs) \<Longrightarrow> getitem xs i = Inr (xs ! nat i)"
  by (simp add: getitem_def)

lemma have_same_depth_inside:
  assumes "depth_shape depth_array (w, h)" "inside_image x y w h"
  shows "have_same_depth x y z depth_array t
           = Inr (\<bar>depth_array ! nat (py_int y) ! nat (py_int x) * 1000 - z\<bar> < t)"
proof -
  from assms(2) have in_x: "0 \<le> x" "x < real_of_int w" and in_y: "0 \<le> y" "y < real_of_int h"
    by (simp_all add: inside_image_def)
  have x: "0 \<le> py_int x" "py_int x < w"
    using py_int_inside [OF in_x] by simp_all
  have y: "0 \<le> py_int y" "py_int y < h"
    using py_int_inside [OF in_y] by simp_all
  from assms(1) have len: "int (length depth_array) = h"
    and rows: "\<forall>row \<in> set depth_array. int (length row) = w"
    by (simp_all add: depth_shape_def)
  have 1: "getitem depth_array (py_int y) = Inr (depth_array ! nat (py_int y))"
    using y len by (simp add: getitem_in_range)
  have "nat (py_int y) < length depth_array"
    using y len by linarith
  then have "depth_array ! nat (py_int y) \<in> set depth_array"
    by simp
  then have "int (length (depth_array ! nat (py_int y))) = w"
    using rows by blast
  then have 2: "getitem (depth_array ! nat (py_int y)) (py_int x)
      = Inr (depth_array ! nat (py_int y) ! nat (py_int x))"
    using x by (simp add: getitem_in_range)
  show ?thesis
    by (simp add: have_same_depth_def 1 2)
qed

lemma same_depth_list_inside:
  assumes "depth_shape depth_array (w, h)" "\<forall>p \<in> set ps. inside_image (fst p) (fst (snd p)) w h"
  shows "same_depth_list depth_array t ps = Inr (map (depth_matches depth_array t) ps)"
  using assms(2)
proof (induction ps)
  case Nil
  then show ?case by simp
next
  case (Cons p ps)
  obtain x y z where p: "p = (x, y, z)" by (cases p)
  have "inside_image x y w h"
    using Cons.prems p by simp
  from have_same_depth_inside [OF assms(1) this]
  have "have_same_depth x y z depth_array t
      = Inr (\<bar>depth_array ! nat (py_int y) ! nat (py_int x) * 1000 - z\<bar> < t)" .
  moreover have "same_depth_list depth_array t ps = Inr (map (depth_matches depth_array t) ps)"
    using Cons by simp
  ultimately show ?case
    by (simp add: p depth_matches_def)
qed

lemma count_list_map_True: "count_list (map P xs) True = length (filter P xs)"
  by (induction xs) simp_all

lemma middle_point_gate_shape:
  assumes "depth_shape depth_array (w, h)"
  shows "\<exists>b. middle_point_gate depth_array (w, h) t m = Inr b"
proof (cases m)
  case (fields m0 m1 m2)
  show ?thesis
  proof (cases "inside_image m0 m1 w h")
    case True
    from have_same_depth_inside [OF assms True] show ?thesis
      by (simp add: middle_point_gate_def fields True)
  next
    case False
    then show ?thesis
      by (auto simp: middle_point_gate_def fields)
  qed
qed

lemma sampling_points_eq:
  "get_bounding_box_sampling_points ends
     = (midpoint ends, midpoint ends # offset_points (midpoint ends))"
proof -
  obtain a0 a1 a2 b0 b1 b2 where "ends = ((a0, a1, a2), (b0, b1, b2))"
    by (metis prod_cases3)
  then show ?thesis
    by (simp add: get_bounding_box_sampling_points_def midpoint_def offset_points_def Let_def)
qed

lemma select_large_bbox_Some:
  "select_large_bbox ends sz = Some box \<Longrightarrow> box = select_max_bbox ends \<and> large_enough sz box"
  by (cases "select_max_bbox ends")
     (auto simp: select_large_bbox_def large_enough_def Let_def mult.commute split: if_splits)

lemma select_large_bbox_None:
  "\<not> large_enough sz (select_max_bbox ends) \<Longrightarrow> select_large_bbox ends sz = None"
  by (cases "select_max_bbox ends")
     (auto simp: select_large_bbox_def large_enough_def Let_def mult.commute)

lemma bbox_from_ends_Some:
  assumes "bbox_from_ends depth_array sz mdt nt ends = Inr (Some box)"
  shows "select_large_bbox ends sz = Some box"
  using assms
  by (auto simp: bbox_from_ends_def sampling_points_eq Let_def
           split: sum.splits bool.splits if_splits)

lemma bbox_from_ends_shape:
  assumes "depth_shape depth_array (w, h)"
  shows "bbox_from_ends depth_array (w, h) mdt nt ends =
     Inr (if middle_point_gate depth_array (w, h) mdt (midpoint ends) = Inr True
             \<or> neighbor_accept depth_array (w, h) nt
                  (midpoint ends # offset_points (midpoint ends))
          then select_large_bbox ends (w, h) else None)"
proof -
  let ?pts = "midpoint ends # offset_points (midpoint ends)"
  let ?inside = "filter (\<lambda>(x, y, z). inside_image x y w h) ?pts"
  obtain b where gate: "middle_point_gate depth_array (w, h) mdt (midpoint ends) = Inr b"
    using middle_point_gate_shape [OF assms] by blast
  have "\<forall>p \<in> set ?inside. inside_image (fst p) (fst (snd p)) w h"
    by auto
  from same_depth_list_inside [OF assms this]
  have sdl: "same_depth_list depth_array nt ?inside = Inr (map (depth_matches depth_array nt) ?inside)" .
  show ?thesis
  proof (cases b)
    case True
    then show ?thesis
      using gate by (simp add: bbox_from_ends_def sampling_points_eq)
  next
    case False
    then show ?thesis
      using gate sdl
      by (simp add: bbox_from_ends_def sampling_points_eq Let_def neighbor_accept_def
            count_list_map_True del: filter.simps)
  qed
qed


lemma get_2d_bbox_from_3d_box_ends:
  assumes "map_ground_bounding_box_to_2D vt ot bb rt K sz = Inr corners"
    and "length corners = 8"
    and "get_bounding_box_from_corners corners = Some ends"
  shows "get_2d_bbox_from_3d_box D vt ot bb rt K sz mdt nt = bbox_from_ends D sz mdt nt ends"
  using assms by (simp add: get_2d_bbox_from_3d_box_def)

lemma get_2d_bbox_from_3d_box_not_8:
  assumes "map_ground_bounding_box_to_2D vt ot bb rt K sz = Inr corners"
    and "length corners \<noteq> 8"
  shows "get_2d_bbox_from_3d_box D vt ot bb rt K sz mdt nt = Inr None"
  using assms by (simp add: get_2d_bbox_from_3d_box_def)

lemma get_2d_bbox_from_3d_box_Some:
  assumes "get_2d_bbox_from_3d_box D vt ot bb rt K sz mdt nt = Inr (Some box)"
  shows "\<exists>corners ends. map_ground_bounding_box_to_2D vt ot bb rt K sz = Inr corners
           \<and> length corners = 8
           \<and> get_bounding_box_from_corners corners = Some ends
           \<and> bbox_from_ends D sz mdt nt ends = Inr (Some box)"
  using assms
  by (auto simp: get_2d_bbox_from_3d_box_def split: sum.splits if_splits option.splits)

text \<open>
  Claim C2. When fewer than eight projected corners are returned by
  \<open>map_ground_bounding_box_to_2D\<close> the result is no box; in particular, when the extrinsic
  matrix is invertible and all eight corners project with a depth that is not positive, the
  result is no box and not an exception.
\<close>

theorem get_2d_bbox_from_3d_box_few_corners:
  "(\<forall>corners. map_ground_bounding_box_to_2D vt ot bb rt K sz = Inr corners \<and> length corners < 8
       \<longrightarrow> get_2d_bbox_from_3d_box D vt ot bb rt K sz mdt nt = Inr None)
   \<and> (\<forall>inv_extrinsic.
         linalg_inv (matrix (Transform_mul vt rt)) = Inr inv_extrinsic
         \<and> (\<forall>p \<in> set (map (project_vertex inv_extrinsic K sz) (bbox_vertices ot bb)).
               snd (snd p) \<le> 0)
       \<longrightarrow> get_2d_bbox_from_3d_box D vt ot bb rt K sz mdt nt = Inr None)"
proof (intro conjI allI impI)
  fix corners
  assume "map_ground_bounding_box_to_2D vt ot bb rt K sz = Inr corners \<and> length corners < 8"
  then show "get_2d_bbox_from_3d_box D vt ot bb rt K sz mdt nt = Inr None"
    using get_2d_bbox_from_3d_box_not_8 [of vt ot bb rt K sz corners] by simp
next
  fix inv_extrinsic
  let ?ps = "map (project_vertex inv_extrinsic K sz) (bbox_vertices ot bb)"
  assume a: "linalg_inv (matrix (Transform_mul vt rt)) = Inr inv_extrinsic
         \<and> (\<forall>p \<in> set ?ps. snd (snd p) \<le> 0)"
  then have "\<forall>p \<in> set ?ps. \<not> retained sz p"
    by (auto simp: retained_def)
  then have "filter (retained sz) ?ps = []"
    by (simp add: filter_empty_conv)
  then have "map_ground_bounding_box_to_2D vt ot bb rt K sz = Inr []"
    using a map_ground_bounding_box_to_2D_filter [of vt rt inv_extrinsic ot bb K sz] by simp
  then show "get_2d_bbox_from_3d_box D vt ot bb rt K sz mdt nt = Inr None"
    using get_2d_bbox_from_3d_box_not_8 [of vt ot bb rt K sz "[]"] by simp
qed

lemmas evaluate_bbox =
  bbox_from_ends_def get_bounding_box_sampling_points_def
  middle_point_gate_def inside_image_def have_same_depth_def getitem_def py_int_def
  select_large_bbox_def select_max_bbox_def Let_def

theorem get_2d_bbox_from_3d_box_few_corners_witness:
  "map_ground_bounding_box_to_2D (translation 0 0 0) (translation 0 0 (- 10)) unit_box
       (translation 0 0 0) intrinsic_20 (20, 20) = Inr []
   \<and> length ([] :: corner list) < 8
   \<and> linalg_inv (matrix (Transform_mul (translation 0 0 0) (translation 0 0 0)))
       = Inr ((1, 0, 0, 0), (0, 1, 0, 0), (0, 0, 1, 0), (0, 0, 0, 1))
   \<and> map (\<lambda>p. snd (snd p))
       (map (project_vertex ((1, 0, 0, 0), (0, 1, 0, 0), (0, 0, 1, 0), (0, 0, 0, 1))
               intrinsic_20 (20, 20))
          (bbox_vertices (translation 0 0 (- 10)) unit_box))
       = [- 9, - 9, - 11, - 11, - 9, - 9, - 11, - 11]
   \<and> get_2d_bbox_from_3d_box (replicate 20 (replicate 20 1)) (translation 0 0 0)
       (translation 0 0 (- 10)) unit_box (translation 0 0 0) intrinsic_20 (20, 20) (1 / 4) 1
       = Inr None"
proof -
  let ?I = "((1, 0, 0, 0), (0, 1, 0, 0), (0, 0, 1, 0), (0, 0, 0, 1)) :: mat4"
  let ?ps = "map (project_vertex ?I intrinsic_20 (20, 20))
               (bbox_vertices (translation 0 0 (- 10)) unit_box)"
  have c: "map_ground_bounding_box_to_2D (translation 0 0 0) (translation 0 0 (- 10)) unit_box
       (translation 0 0 0) intrinsic_20 (20, 20) = Inr []"
    by (simp add: evaluate_scene)
  have i: "linalg_inv (matrix (Transform_mul (translation 0 0 0) (translation 0 0 0))) = Inr ?I"
    by (simp add: evaluate_scene)
  have d: "map (\<lambda>p. snd (snd p)) ?ps = [- 9, - 9, - 11, - 11, - 9, - 9, - 11, - 11]"
    by (simp add: evaluate_scene)
  have "\<forall>z \<in> set (map (\<lambda>p. snd (snd p)) ?ps). z \<le> 0"
    unfolding d by simp
  then have n: "\<forall>p \<in> set ?ps. snd (snd p) \<le> 0"
    by simp
  from get_2d_bbox_from_3d_box_few_corners
         [of "translation 0 0 0" "translation 0 0 (- 10)" unit_box "translation 0 0 0"
             intrinsic_20 "(20, 20)" "replicate 20 (replicate 20 1)" "1 / 4" 1]
       i n
  have "get_2d_bbox_from_3d_box (replicate 20 (replicate 20 1)) (translation 0 0 0)
       (translation 0 0 (- 10)) unit_box (translation 0 0 0) intrinsic_20 (20, 20) (1 / 4) 1
       = Inr None"
    by blast
  with c i d show ?thesis
    by simp
qed


text \<open>
  Claim C7. Every box returned by \<open>get_2d_bbox_from_3d_box\<close> is wider than 1% of the image
  width, higher than 2% of the image height and larger than 0.04% of the image area, all
  strictly. When the depth buffer has the shape of the image, eight corners are returned and
  two ends are found, a candidate box that fails one of the thresholds gives no box,
  whatever the depth test says.
\<close>

theorem get_2d_bbox_from_3d_box_min_size:
  "(\<forall>box. get_2d_bbox_from_3d_box D vt ot bb rt K (w, h) mdt nt = Inr (Some box)
       \<longrightarrow> large_enough (w, h) box)
   \<and> (\<forall>corners ends.
         depth_shape D (w, h)
         \<and> map_ground_bounding_box_to_2D vt ot bb rt K (w, h) = Inr corners
         \<and> length corners = 8
         \<and> get_bounding_box_from_corners corners = Some ends
         \<and> \<not> large_enough (w, h) (select_max_bbox ends)
       \<longrightarrow> get_2d_bbox_from_3d_box D vt ot bb rt K (w, h) mdt nt = Inr None)"
proof (intro conjI allI impI)
  fix box
  assume "get_2d_bbox_from_3d_box D vt ot bb rt K (w, h) mdt nt = Inr (Some box)"
  from get_2d_bbox_from_3d_box_Some [OF this]
  obtain ends where "bbox_from_ends D (w, h) mdt nt ends = Inr (Some box)"
    by blast
  then have "select_large_bbox ends (w, h) = Some box"
    by (rule bbox_from_ends_Some)
  then show "large_enough (w, h) box"
    using select_large_bbox_Some by blast
next
  fix corners ends
  assume a: "depth_shape D (w, h)
         \<and> map_ground_bounding_box_to_2D vt ot bb rt K (w, h) = Inr corners
         \<and> length corners = 8
         \<and> get_bounding_box_from_corners corners = Some ends
         \<and> \<not> large_enough (w, h) (select_max_bbox ends)"
  then have "get_2d_bbox_from_3d_box D vt ot bb rt K (w, h) mdt nt
      = bbox_from_ends D (w, h) mdt nt ends"
    using get_2d_bbox_from_3d_box_ends by blast
  moreover have "select_large_bbox ends (w, h) = None"
    using a select_large_bbox_None by blast
  ultimately show "get_2d_bbox_from_3d_box D vt ot bb rt K (w, h) mdt nt = Inr None"
    using a bbox_from_ends_shape [of D w h mdt nt ends] by simp
qed

lemma far_scene_corners:
  "map_ground_bounding_box_to_2D (translation 0 0 0) (translation 0 0 160) unit_box
       (translation 0 0 0) intrinsic_800 (800, 600)
   = Inr [(64000 / 161, 47900 / 161, 161), (64000 / 161, 48700 / 161, 161),
          (63200 / 159, 47300 / 159, 159), (63200 / 159, 48100 / 159, 159),
          (64800 / 161, 47900 / 161, 161), (64800 / 161, 48700 / 161, 161),
          (64000 / 159, 47300 / 159, 159), (64000 / 159, 48100 / 159, 159)]"
  by (simp add: evaluate_scene)

lemma far_scene_ends:
  "get_bounding_box_from_corners
     [(64000 / 161, 47900 / 161, 161), (64000 / 161, 48700 / 161, 161),
      (63200 / 159, 47300 / 159, 159), (63200 / 159, 48100 / 159, 159),
      (64800 / 161, 47900 / 161, 161), (64800 / 161, 48700 / 161, 161),
      (64000 / 159, 47300 / 159, 159), (64000 / 159, 48100 / 159, 159)]
   = Some ((63200 / 159, 47300 / 159, 159), (64000 / 159, 48100 / 159, 159))"
  by (simp add: get_bounding_box_from_corners_def power2_eq_square)

lemma near_scene_corners:
  "map_ground_bounding_box_to_2D (translation 0 0 0) (translation 0 0 10) unit_box
       (translation 0 0 0) intrinsic_20 (20, 20)
   = Inr [(100 / 11, 100 / 11, 11), (100 / 11, 120 / 11, 11),
          (80 / 9, 80 / 9, 9), (80 / 9, 100 / 9, 9), (120 / 11, 100 / 11, 11),
          (120 / 11, 120 / 11, 11), (100 / 9, 80 / 9, 9), (100 / 9, 100 / 9, 9)]"
  by (simp add: evaluate_scene)

lemma near_scene_ends:
  "get_bounding_box_from_corners
     [(100 / 11, 100 / 11, 11), (100 / 11, 120 / 11, 11),
      (80 / 9, 80 / 9, 9), (80 / 9, 100 / 9, 9), (120 / 11, 100 / 11, 11),
      (120 / 11, 120 / 11, 11), (100 / 9, 80 / 9, 9), (100 / 9, 100 / 9, 9)]
   = Some ((80 / 9, 80 / 9, 9), (100 / 9, 100 / 9, 9))"
  by (simp add: get_bounding_box_from_corners_def power2_eq_square)

lemma near_scene_uniform_box:
  "get_2d_bbox_from_3d_box (replicate 20 (replicate 20 (9 / 1000))) (translation 0 0 0)
       (translation 0 0 10) unit_box (translation 0 0 0) intrinsic_20 (20, 20) (1 / 4) 1
   = Inr (Some (8, 11, 8, 11))"
  by (simp add: get_2d_bbox_from_3d_box_def near_scene_corners near_scene_ends evaluate_bbox)

theorem get_2d_bbox_from_3d_box_min_size_witness:
  "get_2d_bbox_from_3d_box (replicate 20 (replicate 20 (9 / 1000))) (translation 0 0 0)
       (translation 0 0 10) unit_box (translation 0 0 0) intrinsic_20 (20, 20) (1 / 4) 1
     = Inr (Some (8, 11, 8, 11))
   \<and> large_enough (20, 20) (8, 11, 8, 11)
   \<and> depth_shape (replicate 600 (replicate 800 (159 / 1000))) (800, 600)
   \<and> select_max_bbox ((63200 / 159, 47300 / 159, 159), (64000 / 159, 48100 / 159, 159))
       = (397, 402, 297, 302)
   \<and> \<not> large_enough (800, 600) (397, 402, 297, 302)
   \<and> get_2d_bbox_from_3d_box (replicate 600 (replicate 800 (159 / 1000))) (translation 0 0 0)
       (translation 0 0 160) unit_box (translation 0 0 0) intrinsic_800 (800, 600) (1 / 4) 1
     = Inr None"
proof -
  let ?ends = "((63200 / 159, 47300 / 159, 159), (64000 / 159, 48100 / 159, 159)) :: corner \<times> corner"
  have s: "depth_shape (replicate 600 (replicate 800 (159 / 1000))) (800, 600)"
    by (simp add: depth_shape_def)
  have m: "select_max_bbox ?ends = (397, 402, 297, 302)"
    by (simp add: select_max_bbox_def py_int_def Let_def)
  have n: "\<not> large_enough (800, 600) (select_max_bbox ?ends)"
    unfolding m by (simp add: large_enough_def)
  from get_2d_bbox_from_3d_box_min_size
         [of "replicate 20 (replicate 20 (9 / 1000))" "translation 0 0 0" "translation 0 0 10"
             unit_box "translation 0 0 0" intrinsic_20 20 20 "1 / 4" 1]
       near_scene_uniform_box
  have 1: "large_enough (20, 20) (8, 11, 8, 11)"
    by blast
  let ?cs = "[(64000 / 161, 47900 / 161, 161), (64000 / 161, 48700 / 161, 161),
          (63200 / 159, 47300 / 159, 159), (63200 / 159, 48100 / 159, 159),
          (64800 / 161, 47900 / 161, 161), (64800 / 161, 48700 / 161, 161),
          (64000 / 159, 47300 / 159, 159), (64000 / 159, 48100 / 159, 159)] :: corner list"
  have l: "length ?cs = 8"
    by simp
  from get_2d_bbox_from_3d_box_min_size
         [of "replicate 600 (replicate 800 (159 / 1000))" "translation 0 0 0"
             "translation 0 0 160" unit_box "translation 0 0 0" intrinsic_800 800 600 "1 / 4" 1]
       s far_scene_corners l far_scene_ends n
  have 2: "get_2d_bbox_from_3d_box (replicate 600 (replicate 800 (159 / 1000)))
       (translation 0 0 0) (translation 0 0 160) unit_box (translation 0 0 0) intrinsic_800
       (800, 600) (1 / 4) 1 = Inr None"
    by blast
  from 1 2 s m n near_scene_uniform_box show ?thesis
    by simp
qed


text \<open>
  Claim C8, as amended. Let the depth buffer have the shape of the image, eight corners be
  returned and two ends be found. When the condition on the midpoint is false (midpoint
  outside the image or depth mismatch), the sample points are the seven points made of the
  midpoint itself and its six offsets; they are filtered to those inside the image, and the
  box goes on to the size filter if and only if that set is not empty and the number of its
  points that match the depth buffer within \<open>neighbor_threshold\<close> is at least 0.4 times its
  size. Otherwise the result is no box.
\<close>

theorem get_2d_bbox_from_3d_box_neighbor_gate:
  assumes "depth_shape D (w, h)"
    and "map_ground_bounding_box_to_2D vt ot bb rt K (w, h) = Inr corners"
    and "length corners = 8"
    and "get_bounding_box_from_corners corners = Some ends"
    and "middle_point_gate D (w, h) mdt (midpoint ends) = Inr False"
  shows "get_bounding_box_sampling_points ends
           = (midpoint ends, midpoint ends # offset_points (midpoint ends))
         \<and> get_2d_bbox_from_3d_box D vt ot bb rt K (w, h) mdt nt
           = Inr (if neighbor_accept D (w, h) nt (midpoint ends # offset_points (midpoint ends))
                  then select_large_bbox ends (w, h) else None)"
proof -
  have "get_2d_bbox_from_3d_box D vt ot bb rt K (w, h) mdt nt = bbox_from_ends D (w, h) mdt nt ends"
    using assms(2,3,4) by (rule get_2d_bbox_from_3d_box_ends)
  then show ?thesis
    using bbox_from_ends_shape [OF assms(1), of mdt nt ends] assms(5)
    by (simp add: sampling_points_eq)
qed

text \<open>
  Claim C8 as stated fails. In a 20 by 20 image whose depth buffer matches the box only on
  pixel row 10, the midpoint \<open>(10, 10)\<close> misses the depth buffer by 0.5 (threshold 0.25), and
  of the six offset points, all inside the image, only the two on row 10 match within the
  neighbour threshold 1: two is less than 0.4 times six. The box is returned all the same,
  because the midpoint is counted as a seventh sample and three is at least 0.4 times seven.
\<close>

theorem get_2d_bbox_from_3d_box_six_offsets_counterexample:
  "get_2d_bbox_from_3d_box ((replicate 20 (replicate 20 1))[10 := replicate 20 (95 / 10000)])
       (translation 0 0 0) (translation 0 0 10) unit_box (translation 0 0 0) intrinsic_20
       (20, 20) (1 / 4) 1
     = Inr (Some (8, 11, 8, 11))
   \<and> midpoint ((80 / 9, 80 / 9, 9), (100 / 9, 100 / 9, 9)) = (10, 10, 9)
   \<and> middle_point_gate ((replicate 20 (replicate 20 1))[10 := replicate 20 (95 / 10000)])
       (20, 20) (1 / 4) (10, 10, 9) = Inr False
   \<and> \<not> neighbor_accept ((replicate 20 (replicate 20 1))[10 := replicate 20 (95 / 10000)])
         (20, 20) 1 (offset_points (10, 10, 9))"
  by (simp add: get_2d_bbox_from_3d_box_def near_scene_corners near_scene_ends evaluate_bbox
        midpoint_def neighbor_accept_def offset_points_def depth_matches_def)

theorem get_2d_bbox_from_3d_box_neighbor_gate_witness:
  "depth_shape (replicate 20 (replicate 20 (95 / 10000))) (20, 20)
   \<and> midpoint ((80 / 9, 80 / 9, 9), (100 / 9, 100 / 9, 9)) = (10, 10, 9)
   \<and> middle_point_gate (replicate 20 (replicate 20 (95 / 10000))) (20, 20) (1 / 4) (10, 10, 9)
       = Inr False
   \<and> neighbor_accept (replicate 20 (replicate 20 (95 / 10000))) (20, 20) 1
       ((10, 10, 9) # offset_points (10, 10, 9))
   \<and> select_large_bbox ((80 / 9, 80 / 9, 9), (100 / 9, 100 / 9, 9)) (20, 20) = Some (8, 11, 8, 11)
   \<and> get_2d_bbox_from_3d_box (replicate 20 (replicate 20 (95 / 10000))) (translation 0 0 0)
       (translation 0 0 10) unit_box (translation 0 0 0) intrinsic_20 (20, 20) (1 / 4) 1
     = Inr (Some (8, 11, 8, 11))"
proof -
  let ?D = "replicate 20 (replicate 20 (95 / 10000)) :: real list list"
  let ?ends = "((80 / 9, 80 / 9, 9), (100 / 9, 100 / 9, 9)) :: corner \<times> corner"
  let ?cs = "[(100 / 11, 100 / 11, 11), (100 / 11, 120 / 11, 11),
          (80 / 9, 80 / 9, 9), (80 / 9, 100 / 9, 9), (120 / 11, 100 / 11, 11),
          (120 / 11, 120 / 11, 11), (100 / 9, 80 / 9, 9), (100 / 9, 100 / 9, 9)] :: corner list"
  have s: "depth_shape ?D (20, 20)"
    by (simp add: depth_shape_def)
  have l: "length ?cs = 8"
    by simp
  have m: "midpoint ?ends = (10, 10, 9)"
    by (simp add: midpoint_def)
  have g: "middle_point_gate ?D (20, 20) (1 / 4) (midpoint ?ends) = Inr False"
    unfolding m by (simp add: evaluate_bbox)
  have a: "neighbor_accept ?D (20, 20) 1 ((10, 10, 9) # offset_points (10, 10, 9))"
    by (simp add: neighbor_accept_def offset_points_def depth_matches_def evaluate_bbox)
  have b: "select_large_bbox ?ends (20, 20) = Some (8, 11, 8, 11)"
    by (simp add: evaluate_bbox)
  from get_2d_bbox_from_3d_box_neighbor_gate [OF s near_scene_corners l near_scene_ends g, of 1]
  have "get_2d_bbox_from_3d_box ?D (translation 0 0 0) (translation 0 0 10) unit_box
          (translation 0 0 0) intrinsic_20 (20, 20) (1 / 4) 1 = Inr (Some (8, 11, 8, 11))"
    unfolding m using a b by simp
  with s m g a b show ?thesis
    by simp
qed
















section \<open>Properties of the controller\<close>

lemma on_can_bus_update_no_waypoint:
  assumes "self_last_waypoint_msg self = None"
  shows "on_can_bus_update lib self msg =
     Inr (self\<lparr>self_latest_speed := forward_speed (data msg),
                self_vehicle_transform := Some (can_bus_transform (data msg))\<rparr>,
          neutral_command msg)"
  using assms by (simp add: on_can_bus_update_def neutral_command_def Let_def)

lemma can_bus_updates_no_waypoint:
  assumes "self_last_waypoint_msg self = None"
  shows "\<exists>self'. can_bus_updates lib self msgs = Inr (self', map neutral_command msgs)
           \<and> self_last_waypoint_msg self' = None"
  using assms
proof (induction msgs arbitrary: self)
  case Nil
  then show ?case by simp
next
  case (Cons msg msgs)
  let ?self1 = "self\<lparr>self_latest_speed := forward_speed (data msg),
                      self_vehicle_transform := Some (can_bus_transform (data msg))\<rparr>"
  have step: "on_can_bus_update lib self msg = Inr (?self1, neutral_command msg)"
    using Cons.prems by (rule on_can_bus_update_no_waypoint)
  have "self_last_waypoint_msg ?self1 = None"
    using Cons.prems by simp
  from Cons.IH [OF this] obtain self' where
    "can_bus_updates lib ?self1 msgs = Inr (self', map neutral_command msgs)"
    "self_last_waypoint_msg self' = None"
    by blast
  then show ?case
    using step by simp
qed

text \<open>
  Claim C6. From the operator as \<open>__init__\<close> leaves it, any sequence of can-bus updates that
  is not interrupted by a waypoint message raises nothing and sends, for every update, the
  command with steer 0, throttle 0, brake 0 and both flags false, stamped with the update's
  timestamp.
\<close>

theorem can_bus_updates_before_waypoint:
  "\<exists>self'. can_bus_updates lib (PIDControlOperator_init lib longitudinal_control_args flags) msgs
             = Inr (self', map (\<lambda>msg. ControlMessage (Num 0) 0 0 False False (timestamp msg)) msgs)
           \<and> self_last_waypoint_msg self' = None"
proof -
  have "self_last_waypoint_msg (PIDControlOperator_init lib longitudinal_control_args flags) = None"
    by (simp add: PIDControlOperator_init_def)
  from can_bus_updates_no_waypoint [OF this, of lib msgs] show ?thesis
    by (simp add: neutral_command_def [abs_def])
qed

lemma clamp_min_max: "lo \<le> hi \<Longrightarrow> min (max v lo) hi = clamp v lo hi"
  by (auto simp: clamp_def)

text \<open>
  Claim C4. On a can-bus update with a waypoint message present that sends a command, the
  throttle sent is \<open>min(max(default_throttle - 1.3 * pid_gain, 0), throttle_max)\<close>, which is
  \<open>clamp(default_throttle - 1.3 * pid_gain, 0, throttle_max)\<close> whenever the interval of the
  clamp is not empty (\<open>0 \<le> throttle_max\<close>), and the brake sent is
  \<open>min(0.35 * pid_gain * brake_strength, 1)\<close> when \<open>pid_gain > 0.5\<close> and 0 otherwise;
  \<open>pid_gain\<close> is the output of the controller for the target speed of the waypoint message
  and the forward speed of the update.
\<close>

theorem on_can_bus_update_throttle_brake:
  assumes "self_last_waypoint_msg self = Some wmsg"
    and "on_can_bus_update lib self msg = Inr (self', ControlMessage steer throttle brake hb rv ts)"
    and "pid_gain = fst (call lib (set_target lib (self_pid self) (target_speed wmsg))
                           (forward_speed (data msg)))"
  shows "throttle = min (max (default_throttle (self_flags self) - 1.3 * pid_gain) 0)
                      (throttle_max (self_flags self))
       \<and> (0 \<le> throttle_max (self_flags self)
            \<longrightarrow> throttle = clamp (default_throttle (self_flags self) - 1.3 * pid_gain) 0
                             (throttle_max (self_flags self)))
       \<and> brake = (if pid_gain > 0.5 then min (0.35 * pid_gain * brake_strength (self_flags self)) 1
                  else 0)"
proof -
  let ?self1 = "self\<lparr>self_latest_speed := forward_speed (data msg),
                      self_vehicle_transform := Some (can_bus_transform (data msg))\<rparr>"
  obtain g p' where c: "call lib (set_target lib (self_pid self) (target_speed wmsg))
                           (forward_speed (data msg)) = (g, p')"
    by (cases "call lib (set_target lib (self_pid self) (target_speed wmsg))
                           (forward_speed (data msg))")
  then have g: "pid_gain = g"
    using assms(3) by simp
  have tb: "get_throttle_brake lib ?self1 (target_speed wmsg) =
      ((min (max (default_throttle (self_flags self) - 1.3 * g) 0) (throttle_max (self_flags self)),
        (if g > 0.5 then min (0.35 * g * brake_strength (self_flags self)) 1 else 0)),
       ?self1\<lparr>self_pid := p'\<rparr>)"
    using c by (simp add: get_throttle_brake_def Let_def)
  from assms(1,2) have
    "throttle = min (max (default_throttle (self_flags self) - 1.3 * g) 0)
                  (throttle_max (self_flags self))
     \<and> brake = (if g > 0.5 then min (0.35 * g * brake_strength (self_flags self)) 1 else 0)"
    unfolding on_can_bus_update_def Let_def
    by (auto simp: tb split: list.splits sum.splits)
  then show ?thesis
    unfolding g using clamp_min_max by auto
qed

lemma normalize_heading: "normalize (cos a, sin a, 0) = Some (cos a, sin a, 0)"
  by simp

lemma planar_norm_pos:
  assumes "(dx, dy) \<noteq> (0, 0)"
  shows "0 < sqrt (dx\<^sup>2 + dy\<^sup>2)"
proof -
  from assms have "dx \<noteq> 0 \<or> dy \<noteq> 0"
    by simp
  then have "0 < dx\<^sup>2 + dy\<^sup>2"
    by (auto simp: sum_power2_gt_zero_iff)
  then show ?thesis
    by simp
qed

lemma normalize_planar:
  assumes "(dx, dy) \<noteq> (0, 0)"
  shows "normalize (dx, dy, 0) = Some (dx / sqrt (dx\<^sup>2 + dy\<^sup>2), dy / sqrt (dx\<^sup>2 + dy\<^sup>2), 0)"
  using planar_norm_pos [OF assms] by (auto simp: Let_def)

lemma unit_dot_bound:
  fixes c s a b :: real
  assumes "c\<^sup>2 + s\<^sup>2 = 1" "a\<^sup>2 + b\<^sup>2 = 1"
  shows "\<bar>c * a + s * b\<bar> \<le> 1"
proof -
  have "(c * a + s * b)\<^sup>2 + (c * b - s * a)\<^sup>2 = (c\<^sup>2 + s\<^sup>2) * (a\<^sup>2 + b\<^sup>2)"
    by (simp add: power2_eq_square algebra_simps)
  then have "(c * a + s * b)\<^sup>2 + (c * b - s * a)\<^sup>2 = 1"
    using assms by simp
  moreover have "0 \<le> (c * b - s * a)\<^sup>2"
    by simp
  ultimately have "(c * a + s * b)\<^sup>2 \<le> 1"
    by linarith
  then show ?thesis
    by (simp add: abs_square_le_1)
qed

lemma normalized_planar_unit:
  assumes "(dx, dy) \<noteq> (0, 0)"
  shows "(dx / sqrt (dx\<^sup>2 + dy\<^sup>2))\<^sup>2 + (dy / sqrt (dx\<^sup>2 + dy\<^sup>2))\<^sup>2 = 1"
proof -
  let ?n = "sqrt (dx\<^sup>2 + dy\<^sup>2)"
  have pos: "0 < dx\<^sup>2 + dy\<^sup>2"
    using planar_norm_pos [OF assms] by simp
  have sq: "?n\<^sup>2 = dx\<^sup>2 + dy\<^sup>2"
    by simp
  have "(dx / ?n)\<^sup>2 + (dy / ?n)\<^sup>2 = dx\<^sup>2 / ?n\<^sup>2 + dy\<^sup>2 / ?n\<^sup>2"
    by (simp only: power_divide)
  also have "\<dots> = (dx\<^sup>2 + dy\<^sup>2) / ?n\<^sup>2"
    by (simp only: add_divide_distrib)
  also have "\<dots> = (dx\<^sup>2 + dy\<^sup>2) / (dx\<^sup>2 + dy\<^sup>2)"
    by (simp only: sq)
  also have "\<dots> = 1"
    using pos by (intro divide_self) linarith
  finally show ?thesis .
qed

lemma clamp_unit: "\<bar>clamp v (- 1) 1\<bar> \<le> 1"
  by (auto simp: clamp_def)

lemma separate_clamps: "(if v > 0 then min v 1 else max v (- 1)) = clamp v (- 1) 1"
  by (auto simp: clamp_def)

text \<open>
  The steering law in exact arithmetic. If every operation of \<open>_get_steering\<close> were exact, then
  for a waypoint whose planar position differs from the vehicle's the function would raise
  nothing and return the steering law of the specification, a value in \<open>[-1, 1]\<close>: the dot
  product of the two unit vectors cannot leave \<open>[-1, 1]\<close>, and the separate clamps of the
  code are the clamp into \<open>[-1, 1]\<close>. This is a statement about the formulas only. The
  program computes in doubles, where the rounded dot product can exceed 1.
\<close>

lemma get_steering_exact_arithmetic:
  assumes "self_vehicle_transform self = Some vt"
    and "location vt = Some vl"
    and "location waypoint_transform = Some wl"
    and "(loc_x wl, loc_y wl) \<noteq> (loc_x vl, loc_y vl)"
  shows "get_steering self waypoint_transform
           = Inr (Num (steering_law (steer_gain (self_flags self)) (rot_yaw (rotation vt)) vl wl))
         \<and> - 1 \<le> steering_law (steer_gain (self_flags self)) (rot_yaw (rotation vt)) vl wl
         \<and> steering_law (steer_gain (self_flags self)) (rot_yaw (rotation vt)) vl wl \<le> 1"
proof -
  let ?c = "cos (radians (rot_yaw (rotation vt)))"
  let ?s = "sin (radians (rot_yaw (rotation vt)))"
  let ?dx = "loc_x wl - loc_x vl"
  let ?dy = "loc_y wl - loc_y vl"
  let ?n = "sqrt (?dx\<^sup>2 + ?dy\<^sup>2)"
  have nz: "(?dx, ?dy) \<noteq> (0, 0)"
    using assms(4) by auto
  have wp: "normalize (?dx, ?dy, 0 - 0) = Some (?dx / ?n, ?dy / ?n, 0)"
    using normalize_planar [OF nz] by simp
  have v: "normalize (?c, ?s, 0) = Some (?c, ?s, 0)"
    by (rule normalize_heading)
  have "\<bar>?c * (?dx / ?n) + ?s * (?dy / ?n)\<bar> \<le> 1"
    using unit_dot_bound [OF _ normalized_planar_unit [OF nz], of ?c ?s] by simp
  then have dom: "- 1 \<le> ?c * (?dx / ?n) + ?s * (?dy / ?n) \<and> ?c * (?dx / ?n) + ?s * (?dy / ?n) \<le> 1"
    by (simp add: abs_le_iff)
  have acos: "math_acos (dot3 (?c, ?s, 0) (?dx / ?n, ?dy / ?n, 0))
      = Inr (arccos (?c * (?dx / ?n) + ?s * (?dy / ?n)))"
    using dom by (simp add: math_acos_def)
  have "get_steering self waypoint_transform
      = Inr (Num (steering_law (steer_gain (self_flags self)) (rot_yaw (rotation vt)) vl wl))"
    unfolding get_steering_def steering_law_def Let_def
    by (simp only: assms(1,2,3) option.case wp v acos sum.case cross_z.simps
          separate_clamps mult_minus1_right)
  moreover have "\<bar>steering_law (steer_gain (self_flags self)) (rot_yaw (rotation vt)) vl wl\<bar> \<le> 1"
    unfolding steering_law_def Let_def by (rule clamp_unit)
  ultimately show ?thesis
    by (simp add: abs_le_iff) 
qed

section \<open>The controller at concrete inputs\<close>

lemmas evaluate_controller =
  example_operator_def PIDControlOperator_init_def proportional_pid_def example_flags_def
  pose_def unit_scale_def Transform_init_def radians_def on_waypoint_def

theorem on_can_bus_update_throttle_brake_witness:
  "self_last_waypoint_msg
       (on_waypoint example_operator \<lparr>target_speed = 10, waypoints = [pose 10 0 0]\<rparr>)
     = Some \<lparr>target_speed = 10, waypoints = [pose 10 0 0]\<rparr>
   \<and> map_sum id snd
         (on_can_bus_update proportional_pid
            (on_waypoint example_operator \<lparr>target_speed = 10, waypoints = [pose 10 0 0]\<rparr>)
            \<lparr>data = \<lparr>forward_speed = 12, can_bus_transform = pose 0 0 0\<rparr>, timestamp = [1]\<rparr>)
     = Inr (ControlMessage (Num 0) 0 (7 / 10) False False [1])
   \<and> fst (call proportional_pid (set_target proportional_pid (self_pid example_operator) 10) 12)
     = 2
   \<and> 0 \<le> throttle_max example_flags
   \<and> clamp (default_throttle example_flags - 1.3 * 2) 0 (throttle_max example_flags) = 0
   \<and> min (0.35 * 2 * brake_strength example_flags) 1 = 7 / 10"
proof -
  let ?w = "\<lparr>target_speed = 10, waypoints = [pose 10 0 0]\<rparr>"
  let ?self = "on_waypoint example_operator ?w"
  let ?msg = "\<lparr>data = \<lparr>forward_speed = 12, can_bus_transform = pose 0 0 0\<rparr>, timestamp = [1]\<rparr>"
  have w: "self_last_waypoint_msg ?self = Some ?w"
    by (simp add: on_waypoint_def)
  have sent: "map_sum id snd (on_can_bus_update proportional_pid ?self ?msg)
      = Inr (ControlMessage (Num 0) 0 (7 / 10) False False [1])"
    by (simp add: evaluate_controller on_can_bus_update_def get_throttle_brake_def
          get_steering_def math_acos_def Let_def)
  then obtain self' where run: "on_can_bus_update proportional_pid ?self ?msg
      = Inr (self', ControlMessage (Num 0) 0 (7 / 10) False False [1])"
    by (cases "on_can_bus_update proportional_pid ?self ?msg") auto
  have g: "2 = fst (call proportional_pid (set_target proportional_pid (self_pid ?self)
                      (target_speed ?w)) (forward_speed (data ?msg)))"
    by (simp add: evaluate_controller)
  have f: "self_flags ?self = example_flags" "self_pid ?self = self_pid example_operator"
    by (simp_all add: evaluate_controller)
  have t: "0 \<le> throttle_max example_flags"
    by (simp add: example_flags_def)
  from on_can_bus_update_throttle_brake [OF w run g] t
  have "0 = clamp (default_throttle example_flags - 1.3 * 2) 0 (throttle_max example_flags)
      \<and> 7 / 10 = (if (2::real) > 0.5 then min (0.35 * 2 * brake_strength example_flags) 1 else 0)"
    unfolding f by simp
  with w sent g t show ?thesis
    unfolding f by simp
qed

lemma get_steering_exact_arithmetic_example:
  "self_vehicle_transform (example_operator\<lparr>self_vehicle_transform := Some (pose 0 0 0)\<rparr>)
     = Some (pose 0 0 0)
   \<and> location (pose 0 0 0) = Some \<lparr>loc_x = 0, loc_y = 0, loc_z = 0\<rparr>
   \<and> location (pose 0 10 0) = Some \<lparr>loc_x = 0, loc_y = 10, loc_z = 0\<rparr>
   \<and> steering_law 1 0 \<lparr>loc_x = 0, loc_y = 0, loc_z = 0\<rparr> \<lparr>loc_x = 0, loc_y = 10, loc_z = 0\<rparr> = 1
   \<and> get_steering (example_operator\<lparr>self_vehicle_transform := Some (pose 0 0 0)\<rparr>)
         (pose 0 10 0)
     = Inr (Num 1)"
proof -
  let ?self = "example_operator\<lparr>self_vehicle_transform := Some (pose 0 0 0)\<rparr>"
  let ?vl = "\<lparr>loc_x = 0, loc_y = 0, loc_z = 0\<rparr>"
  let ?wl = "\<lparr>loc_x = 0, loc_y = 10, loc_z = 0\<rparr>"
  have v: "self_vehicle_transform ?self = Some (pose 0 0 0)"
    by simp
  have vl: "location (pose 0 0 0) = Some ?vl"
    by (simp add: evaluate_controller)
  have wl: "location (pose 0 10 0) = Some ?wl"
    by (simp add: evaluate_controller)
  have d: "(loc_x ?wl, loc_y ?wl) \<noteq> (loc_x ?vl, loc_y ?vl)"
    by simp
  have l: "steering_law 1 0 ?vl ?wl = 1"
    using pi_ge_two by (auto simp: steering_law_def radians_def clamp_def Let_def)
  have p: "steer_gain (self_flags ?self) = 1" "rot_yaw (rotation (pose 0 0 0)) = 0"
    by (simp_all add: evaluate_controller)
  from get_steering_exact_arithmetic [OF v vl wl d]
  have "get_steering ?self (pose 0 10 0) = Inr (Num 1)"
    unfolding p l by simp
  with v vl wl l show ?thesis
    by simp
qed

lemma get_steering_coincident:
  assumes "self_vehicle_transform self = Some vt"
    and "location vt = Some vl"
    and "location waypoint_transform = Some wl"
    and "loc_x wl = loc_x vl" "loc_y wl = loc_y vl"
  shows "get_steering self waypoint_transform = Inr NaN"
  using assms by (simp add: get_steering_def Let_def)

text \<open>
  Claim C9 against the code. With the vehicle at \<open>(3, 4)\<close> and the waypoint at the same
  position, the waypoint vector is zero, its normalisation is the array of \<open>nan\<close>, and
  \<open>_get_steering\<close> returns \<open>nan\<close> without raising; \<open>on_can_bus_update\<close> sends a control message
  whose steer is \<open>nan\<close>.
\<close>

theorem get_steering_coincident_waypoint_nan:
  "get_steering (example_operator\<lparr>self_vehicle_transform := Some (pose 3 4 0)\<rparr>) (pose 3 4 0)
     = Inr NaN
   \<and> map_sum id snd
         (on_can_bus_update proportional_pid
            (on_waypoint example_operator \<lparr>target_speed = 10, waypoints = [pose 3 4 0]\<rparr>)
            \<lparr>data = \<lparr>forward_speed = 12, can_bus_transform = pose 3 4 0\<rparr>, timestamp = [1]\<rparr>)
     = Inr (ControlMessage NaN 0 (7 / 10) False False [1])"
  by (simp add: evaluate_controller on_can_bus_update_def get_throttle_brake_def
        get_steering_def math_acos_def Let_def)



end
